theory Spec2Isabelle
  imports Main
begin

section \<open>Python values read from spreadsheet cells\<close>

text \<open>
  The wizard reads the uploaded workbook with openpyxl (\<open>values_only=True\<close>), so a cell is
  \<open>None\<close>, a \<open>str\<close>, an \<open>int\<close>, a \<open>float\<close>, a \<open>bool\<close>, a \<open>datetime\<close> or a \<open>date\<close>.
  A string is a list of characters with code points below 256, \<open>CHR 0xA0\<close> being U+00A0:
  \<open>len\<close> counts characters, and the whitespace that \<open>str.strip()\<close> removes is what
  \<open>str.isspace\<close> holds in that range, that is U+0009 to U+000D, U+001C to U+0020, U+0085 and
  U+00A0.

  A finite float is the dyadic rational \<open>m * 2 ^ e\<close>; only \<open>float.is_integer()\<close> and
  \<open>int(float)\<close> read it. The text \<open>str(x)\<close> of a float, and openpyxl's \<open>from_excel\<close>, are
  functions of the Python runtime and of openpyxl: they are fields of the record \<open>runtime\<close>
  that every function below takes.
\<close>

datatype pyfloat = PyFloat int int

record pydate =
  year :: nat
  month :: nat
  day :: nat

record pytime =
  hour :: nat
  minute :: nat
  second :: nat
  microsecond :: nat

datatype cell =
    CNone
  | CStr string
  | CInt int
  | CFloat pyfloat
  | CBool bool
  | CDateTime pydate pytime
  | CDate pydate

datatype exn =
    ValueError
  | UserError string
  | Exception string

record runtime =
  float_str :: "pyfloat \<Rightarrow> string"
  from_excel_float :: "pyfloat \<Rightarrow> exn + pydate"
  from_excel_int :: "int \<Rightarrow> exn + pydate"
  openpyxl :: bool

text \<open>
  \<open>from_excel_float rt x\<close> stands for \<open>from_excel(x).date()\<close>: \<open>Inl\<close> when the import or
  either call raises. \<open>openpyxl rt\<close> tells whether \<open>import openpyxl\<close> succeeds.
\<close>

subsection \<open>Strings\<close>

definition dq :: char where
  "dq = CHR 0x22"

definition nl :: char where
  "nl = CHR 0x0A"

definition is_space :: "char \<Rightarrow> bool" where
  "is_space c = (c \<in> set [CHR 0x20, CHR 0x09, CHR 0x0A, CHR 0x0B, CHR 0x0C, CHR 0x0D,
                            CHR 0x1C, CHR 0x1D, CHR 0x1E, CHR 0x1F, CHR 0x85, CHR 0xA0])"

definition strip :: "string \<Rightarrow> string" where
  "strip s = rev (dropWhile is_space (rev (dropWhile is_space s)))"

definition startswith :: "string \<Rightarrow> string \<Rightarrow> bool" where
  "startswith s p = (take (length p) s = p)"

definition digit_char :: "nat \<Rightarrow> char" where
  "digit_char n = (''0123456789'' ! n)"

fun str_nat :: "nat \<Rightarrow> string" where
  "str_nat n = (if n < 10 then [digit_char n] else str_nat (n div 10) @ [digit_char (n mod 10)])"

declare str_nat.simps [simp del]

definition str_int :: "int \<Rightarrow> string" where
  "str_int i = (if i < 0 then CHR ''-'' # str_nat (nat (- i)) else str_nat (nat i))"

definition zfill :: "nat \<Rightarrow> string \<Rightarrow> string" where
  "zfill w s = replicate (w - length s) (CHR ''0'') @ s"

definition str_date :: "pydate \<Rightarrow> string" where
  "str_date d = zfill 4 (str_nat (year d)) @ ''-'' @ zfill 2 (str_nat (month d)) @ ''-''
                @ zfill 2 (str_nat (day d))"

definition str_time :: "pytime \<Rightarrow> string" where
  "str_time t = zfill 2 (str_nat (hour t)) @ '':'' @ zfill 2 (str_nat (minute t)) @ '':''
                @ zfill 2 (str_nat (second t))
                @ (if microsecond t = 0 then [] else ''.'' @ zfill 6 (str_nat (microsecond t)))"

text \<open>\<open>str(v)\<close> for a cell value.\<close>

fun py_str :: "runtime \<Rightarrow> cell \<Rightarrow> string" where
  "py_str rt CNone = ''None''"
| "py_str rt (CStr s) = s"
| "py_str rt (CInt i) = str_int i"
| "py_str rt (CFloat x) = float_str rt x"
| "py_str rt (CBool b) = (if b then ''True'' else ''False'')"
| "py_str rt (CDateTime d t) = str_date d @ '' '' @ str_time t"
| "py_str rt (CDate d) = str_date d"

text \<open>Truth value of a cell, as \<open>not v\<close> and \<open>v or ''\<close> read it.\<close>

fun is_integer :: "pyfloat \<Rightarrow> bool" where
  "is_integer (PyFloat m e) = (if 0 \<le> e then True else m mod 2 ^ nat (- e) = 0)"

fun int_of_float :: "pyfloat \<Rightarrow> int" where
  "int_of_float (PyFloat m e) =
     (if 0 \<le> e then m * 2 ^ nat e
      else if 0 \<le> m then m div 2 ^ nat (- e) else - ((- m) div 2 ^ nat (- e)))"

fun truthy :: "cell \<Rightarrow> bool" where
  "truthy CNone = False"
| "truthy (CStr s) = (s \<noteq> [])"
| "truthy (CInt i) = (i \<noteq> 0)"
| "truthy (CFloat (PyFloat m e)) = (m \<noteq> 0)"
| "truthy (CBool b) = b"
| "truthy (CDateTime d t) = True"
| "truthy (CDate d) = True"

section \<open>Helpers of the wizard module\<close>

subsection \<open>\<open>_parse_str\<close>\<close>

text \<open>
  \<open>raw is None or raw == ''\<close> gives the empty text; an integral float is turned into its
  \<open>int\<close> first; the text is stripped; a text of exactly 10 characters that starts with
  \<open>1\<close> gets a \<open>0\<close> in front.
\<close>

definition pad_bd :: "string \<Rightarrow> string" where
  "pad_bd result = (if length result = 10 \<and> startswith result ''1'' then ''0'' @ result else result)"

fun parse_str :: "runtime \<Rightarrow> cell \<Rightarrow> string" where
  "parse_str rt CNone = ''''"
| "parse_str rt (CStr s) = (if s = '''' then '''' else pad_bd (strip s))"
| "parse_str rt (CFloat x) =
     (if is_integer x then pad_bd (strip (py_str rt (CInt (int_of_float x))))
      else pad_bd (strip (py_str rt (CFloat x))))"
| "parse_str rt v = pad_bd (strip (py_str rt v))"

subsection \<open>\<open>datetime.strptime\<close> on the four date formats\<close>

text \<open>
  CPython turns a format into a regular expression (\<open>%Y\<close> is \<open>\d\d\d\d\<close>, \<open>%m\<close> is
  \<open>1[0-2]|0[1-9]|[1-9]\<close>, \<open>%d\<close> is \<open>3[01]|[12]\d|0[1-9]|[1-9]| [1-9]\<close>), matches it at the
  start of the text, raises \<open>ValueError\<close> when the text does not match or is not consumed
  to its end, and raises \<open>ValueError\<close> again when year, month and day are not a date of the
  calendar. A matcher returns its matches in the order in which the regular expression
  tries them; the match found is the first one.
\<close>

datatype directive = DY | Dm | Dd | Lit char

definition is_digit :: "char \<Rightarrow> bool" where
  "is_digit c = (c \<in> set ''0123456789'')"

definition digit_val :: "char \<Rightarrow> nat" where
  "digit_val c = of_char c - 48"

definition two_digits :: "char \<Rightarrow> char \<Rightarrow> nat" where
  "two_digits a b = 10 * digit_val a + digit_val b"

fun match_Y :: "string \<Rightarrow> (nat \<times> string) list" where
  "match_Y (a # b # c # d # rest) =
     (if is_digit a \<and> is_digit b \<and> is_digit c \<and> is_digit d
      then [(1000 * digit_val a + 100 * digit_val b + 10 * digit_val c + digit_val d, rest)]
      else [])"
| "match_Y s = []"

text \<open>One alternative of two characters, and one of a single character.\<close>

definition alt2 :: "string \<Rightarrow> string \<Rightarrow> string \<Rightarrow> (nat \<times> string) list" where
  "alt2 cs1 cs2 s =
     (case s of
        a # b # rest \<Rightarrow>
          if a \<in> set cs1 \<and> b \<in> set cs2
          then [(if is_digit a then two_digits a b else digit_val b, rest)] else []
      | _ \<Rightarrow> [])"

definition alt1 :: "string \<Rightarrow> string \<Rightarrow> (nat \<times> string) list" where
  "alt1 cs1 s =
     (case s of a # rest \<Rightarrow> if a \<in> set cs1 then [(digit_val a, rest)] else [] | _ \<Rightarrow> [])"

definition match_m :: "string \<Rightarrow> (nat \<times> string) list" where
  "match_m s = alt2 ''1'' ''012'' s @ alt2 ''0'' ''123456789'' s @ alt1 ''123456789'' s"

definition match_d :: "string \<Rightarrow> (nat \<times> string) list" where
  "match_d s = alt2 ''3'' ''01'' s @ alt2 ''12'' ''0123456789'' s @ alt2 ''0'' ''123456789'' s
               @ alt1 ''123456789'' s @ alt2 '' '' ''123456789'' s"

text \<open>
  The fields found so far are a triple (year, month, day). A format lacking a field would
  leave \<open>strptime\<close>'s default (1900, 1, 1); each of the four formats has all three.
\<close>

fun match_fmt :: "directive list \<Rightarrow> (nat \<times> nat \<times> nat) \<Rightarrow> string
                  \<Rightarrow> ((nat \<times> nat \<times> nat) \<times> string) list" where
  "match_fmt [] ymd s = [(ymd, s)]"
| "match_fmt (DY # fs) (y, m, d) s =
     concat (map (\<lambda>(v, rest). match_fmt fs (v, m, d) rest) (match_Y s))"
| "match_fmt (Dm # fs) (y, m, d) s =
     concat (map (\<lambda>(v, rest). match_fmt fs (y, v, d) rest) (match_m s))"
| "match_fmt (Dd # fs) (y, m, d) s =
     concat (map (\<lambda>(v, rest). match_fmt fs (y, m, v) rest) (match_d s))"
| "match_fmt (Lit c # fs) ymd s =
     (case s of a # rest \<Rightarrow> if a = c then match_fmt fs ymd rest else [] | [] \<Rightarrow> [])"

definition is_leap :: "nat \<Rightarrow> bool" where
  "is_leap y = (y mod 4 = 0 \<and> (y mod 100 \<noteq> 0 \<or> y mod 400 = 0))"

definition days_in_month :: "nat \<Rightarrow> nat \<Rightarrow> nat" where
  "days_in_month y m =
     (if m = 2 then (if is_leap y then 29 else 28)
      else if m \<in> set [4, 6, 9, 11] then 30 else 31)"

definition valid_date :: "nat \<Rightarrow> nat \<Rightarrow> nat \<Rightarrow> bool" where
  "valid_date y m d =
     (1 \<le> y \<and> y \<le> 9999 \<and> 1 \<le> m \<and> m \<le> 12 \<and> 1 \<le> d \<and> d \<le> days_in_month y m)"

definition strptime :: "string \<Rightarrow> directive list \<Rightarrow> exn + pydate" where
  "strptime s fmt =
     (case match_fmt fmt (1900, 1, 1) s of
        [] \<Rightarrow> Inl ValueError
      | ((y, m, d), rest) # _ \<Rightarrow>
          if rest \<noteq> [] then Inl ValueError
          else if valid_date y m d then Inr \<lparr>year = y, month = m, day = d\<rparr>
          else Inl ValueError)"

definition fmt_Ymd :: "directive list" where
  "fmt_Ymd = [DY, Lit (CHR ''-''), Dm, Lit (CHR ''-''), Dd]"

definition fmt_dmY_slash :: "directive list" where
  "fmt_dmY_slash = [Dd, Lit (CHR ''/''), Dm, Lit (CHR ''/''), DY]"

definition fmt_dmY_dash :: "directive list" where
  "fmt_dmY_dash = [Dd, Lit (CHR ''-''), Dm, Lit (CHR ''-''), DY]"

definition fmt_mdY_slash :: "directive list" where
  "fmt_mdY_slash = [Dm, Lit (CHR ''/''), Dd, Lit (CHR ''/''), DY]"

definition date_formats :: "directive list list" where
  "date_formats = [fmt_Ymd, fmt_dmY_slash, fmt_dmY_dash, fmt_mdY_slash]"

subsection \<open>\<open>_parse_date\<close>\<close>

text \<open>
  The loop over the formats: \<open>except ValueError: continue\<close> goes on to the next format on a
  \<open>ValueError\<close> only, any other exception leaves the function; after the last format the
  function returns \<open>None\<close>.
\<close>

fun try_formats :: "string \<Rightarrow> directive list list \<Rightarrow> exn + pydate option" where
  "try_formats s [] = Inr None"
| "try_formats s (fmt # fmts) =
     (case strptime s fmt of
        Inr d \<Rightarrow> Inr (Some d)
      | Inl ValueError \<Rightarrow> try_formats s fmts
      | Inl e \<Rightarrow> Inl e)"

text \<open>
  \<open>except Exception: pass\<close> around \<open>from_excel\<close> swallows whatever it raises, and the
  function goes on to the text formats with \<open>str(raw)\<close>. A \<open>bool\<close> is an \<open>int\<close> for
  \<open>isinstance\<close>.
\<close>

fun parse_date :: "runtime \<Rightarrow> cell \<Rightarrow> exn + pydate option" where
  "parse_date rt CNone = Inr None"
| "parse_date rt (CStr s) =
     (if s = '''' then Inr None else try_formats (strip s) date_formats)"
| "parse_date rt (CDateTime d t) = Inr (Some d)"
| "parse_date rt (CDate d) = Inr (Some d)"
| "parse_date rt (CFloat x) =
     (case from_excel_float rt x of
        Inr d \<Rightarrow> Inr (Some d)
      | Inl e \<Rightarrow> try_formats (strip (py_str rt (CFloat x))) date_formats)"
| "parse_date rt (CInt i) =
     (case from_excel_int rt i of
        Inr d \<Rightarrow> Inr (Some d)
      | Inl e \<Rightarrow> try_formats (strip (py_str rt (CInt i))) date_formats)"
| "parse_date rt (CBool b) =
     (case from_excel_int rt (if b then 1 else 0) of
        Inr d \<Rightarrow> Inr (Some d)
      | Inl e \<Rightarrow> try_formats (strip (py_str rt (CBool b))) date_formats)"

text \<open>
  A runtime for examples: floats print as \<open>1.5\<close> whatever they are, and \<open>from_excel\<close>
  raises. The examples below hold text and integer cells.
\<close>

definition example_runtime :: runtime where
  "example_runtime =
     \<lparr>float_str = (\<lambda>x. ''1.5''),
      from_excel_float = (\<lambda>x. Inl (Exception ''from_excel'')),
      from_excel_int = (\<lambda>i. Inl (Exception ''from_excel'')),
      openpyxl = True\<rparr>"

section \<open>Reading the uploaded workbook\<close>

subsection \<open>Python dictionaries\<close>

text \<open>
  A \<open>dict\<close> is an association list with one entry for a key, in insertion order:
  \<open>d[k] = v\<close> replaces the value of a key that is there and appends a key that is not,
  \<open>d.get(k)\<close> is \<open>None\<close> for a key that is not there.
\<close>

fun dict_set :: "('k \<times> 'v) list \<Rightarrow> 'k \<Rightarrow> 'v \<Rightarrow> ('k \<times> 'v) list" where
  "dict_set [] k v = [(k, v)]"
| "dict_set ((k', v') # d) k v = (if k' = k then (k, v) # d else (k', v') # dict_set d k v)"

type_synonym row = "(string \<times> cell) list"

definition get :: "row \<Rightarrow> string \<Rightarrow> cell" where
  "get row_data label = (case map_of row_data label of None \<Rightarrow> CNone | Some v \<Rightarrow> v)"


subsection \<open>\<open>_parse_excel\<close>\<close>

text \<open>
  The binary field \<open>file\<close> of the wizard either cannot be loaded by openpyxl
  (\<open>load_workbook\<close> raises, \<open>Unreadable\<close> carries the text of the exception) or is a
  workbook, of which the wizard reads the rows of the active sheet: \<open>Workbook rows\<close>, each
  row the tuple of its cell values, the header row first.
\<close>

datatype upload = Unreadable string | Workbook "cell list list"

definition header_name :: "runtime \<Rightarrow> cell \<Rightarrow> string" where
  "header_name rt h = (if h = CNone then '''' else strip (py_str rt h))"

definition empty_row :: "runtime \<Rightarrow> cell list \<Rightarrow> bool" where
  "empty_row rt row_vals = list_all (\<lambda>v. v = CNone \<or> strip (py_str rt v) = '''') row_vals"

text \<open>
  The inner loop \<open>for col_idx, val in enumerate(row_vals)\<close>: the cells beyond the last
  header are dropped, the others are stored under their header, a later column replacing an
  earlier one of the same header.
\<close>

fun fill_row :: "row \<Rightarrow> string list \<Rightarrow> cell list \<Rightarrow> row" where
  "fill_row row_dict (hdr # headers) (val # row_vals) =
     fill_row (dict_set row_dict hdr val) headers row_vals"
| "fill_row row_dict headers row_vals = row_dict"

text \<open>
  The outer loop \<open>for row_idx, row_vals in enumerate(rows_iter, start=2)\<close>, \<open>row_idx\<close>
  being the number of the row in the sheet, where the header row is row 1.
\<close>

fun data_rows :: "runtime \<Rightarrow> string list \<Rightarrow> int \<Rightarrow> cell list list \<Rightarrow> row list" where
  "data_rows rt headers row_idx [] = []"
| "data_rows rt headers row_idx (row_vals # rest) =
     (if empty_row rt row_vals then data_rows rt headers (row_idx + 1) rest
      else fill_row [(''_row_no'', CInt row_idx)] headers row_vals
           # data_rows rt headers (row_idx + 1) rest)"

text \<open>The messages are the texts of the source, which \<open>_\<close> hands to the translations.\<close>

definition parse_excel :: "runtime \<Rightarrow> upload \<Rightarrow> exn + row list" where
  "parse_excel rt f =
     (if \<not> openpyxl rt
      then Inl (UserError ''openpyxl is required. Install it with: pip install openpyxl'')
      else case f of
        Unreadable e \<Rightarrow> Inl (UserError (''Could not read Excel file: '' @ e))
      | Workbook [] \<Rightarrow> Inl (UserError ''The Excel file appears to be empty.'')
      | Workbook (raw_headers # rows) \<Rightarrow>
          Inr (data_rows rt (map (header_name rt) raw_headers) 2 rows))"

section \<open>The wizard and the directory store\<close>

subsection \<open>The transient records\<close>

text \<open>
  A preview line, \<open>employee.bulk.upload.line\<close>. The dictionary that \<open>_validate_row\<close> returns
  has the row number as the cell read from the row (\<open>cell line\<close>); the stored line has it as
  the integer of the field \<open>row_no\<close> (\<open>int line\<close>). The fields \<open>wizard_id\<close> and \<open>raw_json\<close>, which
  no function of the module reads, are left out.
\<close>

record 'n line =
  row_no :: 'n
  employee_id_no :: string
  device_user_id :: string
  name :: string
  work_email :: string
  company :: string
  department :: string
  job :: string
  is_valid :: bool
  import_status :: string
  error_text :: string

text \<open>
  The wizard, \<open>employee.bulk.upload.wizard\<close>, its field \<open>file\<close> written \<open>file_bin\<close>. A field that is not set is
  \<open>False\<close> in Odoo, \<open>None\<close> here.
\<close>

record wizard =
  file_bin :: "upload option"
  create_missing_departments :: bool
  create_missing_jobs :: bool
  stop_on_error :: bool
  line_ids :: "int line list"
  state :: string
  import_log_id :: "nat option"
  output_file :: "string option"
  output_filename :: "string option"
  error_file :: "string option"
  error_filename :: "string option"
  import_summary :: "string option"

subsection \<open>Records of the directory\<close>

text \<open>
  A record of a model is its id and the dictionary of its field values; a table lists the
  records of a model, and the directory maps the name of a model to its table. \<open>FLink ids\<close>
  is the value \<open>[(4, id), ...]\<close> given for a relation field, which adds the ids to those the
  field holds; \<open>FIds ids\<close> is the value \<open>[(6, 0, ids)]\<close>, and what a relation field holds.
\<close>

datatype fval =
    FFalse
  | FStr string
  | FInt int
  | FId nat
  | FDate pydate
  | FIds "nat list"
  | FLink "nat list"

type_synonym vals = "(string \<times> fval) list"

type_synonym table = "(nat \<times> vals) list"

type_synonym tables = "(string \<times> table) list"

definition table_of :: "tables \<Rightarrow> string \<Rightarrow> table" where
  "table_of db model = (case map_of db model of None \<Rightarrow> [] | Some t \<Rightarrow> t)"

definition field :: "vals \<Rightarrow> string \<Rightarrow> fval" where
  "field r f = (case map_of r f of None \<Rightarrow> FFalse | Some v \<Rightarrow> v)"

definition browse :: "tables \<Rightarrow> string \<Rightarrow> nat \<Rightarrow> vals" where
  "browse db model i = (case map_of (table_of db model) i of None \<Rightarrow> [] | Some r \<Rightarrow> r)"

text \<open>
  The state of a request: the directory, the wizard \<open>self\<close> with its lines, the counter of
  the id sequences, and the number of passwords drawn so far. The transaction of the
  database holds the directory and the wizard; a rollback restores both and leaves the two
  counters where they are.
\<close>

record store =
  tables :: tables
  self :: wizard
  next_id :: nat
  draws :: nat

definition rollback :: "store \<Rightarrow> store \<Rightarrow> store" where
  "rollback s0 s = s\<lparr>tables := tables s0, self := self s0\<rparr>"

subsection \<open>What Odoo and the other modules provide\<close>

text \<open>
  How a \<open>create\<close> or a \<open>write\<close> of the ORM ends: it succeeds, or it raises before the
  record is written, or it raises once the record is written (a constraint checked after the
  \<open>INSERT\<close> or the \<open>UPDATE\<close>).
\<close>

datatype outcome = Done | RaisesBefore exn | RaisesAfter exn

text \<open>
  \<open>py env\<close> is the Python runtime with openpyxl;
  \<open>ilike env pattern text\<close> is the operator \<open>=ilike\<close>; \<open>search_order env model\<close> sorts a
  table in the \<open>_order\<close> of the model; \<open>defaults env model vals\<close> are the fields that the ORM
  adds to a new record; \<open>ref env\<close> is \<open>env.ref\<close>; \<open>uid env\<close> is \<open>env.user.id\<close>;
  \<open>employee_type_selection env\<close> is the selection of the field \<open>employee_type\<close> of
  \<open>hr.employee\<close>, keys and labels as texts, or the exception raised on the way to it;
  \<open>password_of env n\<close> is the password that \<open>_random_password\<close> draws when \<open>n\<close> have been drawn;
  \<open>hash_of env\<close> is the hash of the password context; \<open>output_excel env\<close> and
  \<open>error_excel env\<close> are the workbooks that the two builders save, in base 64; \<open>to_int env\<close>
  is \<open>int\<close> on a text.
\<close>

record env =
  py :: runtime
  ilike :: "string \<Rightarrow> string \<Rightarrow> bool"
  search_order :: "string \<Rightarrow> table \<Rightarrow> table"
  defaults :: "string \<Rightarrow> vals \<Rightarrow> vals"
  create_outcome :: "string \<Rightarrow> vals \<Rightarrow> tables \<Rightarrow> outcome"
  write_outcome :: "string \<Rightarrow> nat \<Rightarrow> vals \<Rightarrow> tables \<Rightarrow> outcome"
  ref :: "string \<Rightarrow> nat option"
  uid :: nat
  today :: pydate
  now :: "pydate \<times> pytime"
  employee_type_selection :: "exn + (string \<times> string) list"
  password_of :: "nat \<Rightarrow> string"
  hash_of :: "string \<Rightarrow> string"
  output_excel :: "(string \<times> string) list list \<Rightarrow> string"
  error_excel :: "(cell \<times> string) list \<Rightarrow> string"
  to_int :: "string \<Rightarrow> exn + int"

subsection \<open>Operations on the state\<close>

text \<open>
  An operation takes the state and returns the state it leaves, with a value or with the
  exception it raises. \<open>try_except\<close> hands the exception to the handler in the state the
  body left; \<open>savepoint\<close> is \<open>with env.cr.savepoint():\<close>, which rolls back what the body
  wrote when the body raises, and raises again.
\<close>

type_synonym 'a op = "store \<Rightarrow> (exn + 'a) \<times> store"

definition ret :: "'a \<Rightarrow> 'a op" where
  "ret x s = (Inr x, s)"

definition raise :: "exn \<Rightarrow> 'a op" where
  "raise e s = (Inl e, s)"

definition bnd :: "'a op \<Rightarrow> ('a \<Rightarrow> 'b op) \<Rightarrow> 'b op" where
  "bnd m f s = (case m s of (Inl e, s') \<Rightarrow> (Inl e, s') | (Inr x, s') \<Rightarrow> f x s')"

definition try_except :: "'a op \<Rightarrow> (exn \<Rightarrow> 'a op) \<Rightarrow> 'a op" where
  "try_except m h s = (case m s of (Inl e, s') \<Rightarrow> h e s' | (Inr x, s') \<Rightarrow> (Inr x, s'))"

definition savepoint :: "'a op \<Rightarrow> 'a op" where
  "savepoint m s = (case m s of (Inl e, s') \<Rightarrow> (Inl e, rollback s s') | (Inr x, s') \<Rightarrow> (Inr x, s'))"

definition lift :: "exn + 'a \<Rightarrow> 'a op" where
  "lift r s = (r, s)"

text \<open>\<open>str(exc)\<close>: the message of the exception.\<close>

fun exn_str :: "exn \<Rightarrow> string" where
  "exn_str ValueError = ''''"
| "exn_str (UserError m) = m"
| "exn_str (Exception m) = m"

subsection \<open>The ORM\<close>

text \<open>
  \<open>search(domain, limit=1)\<close>: the first record, in the order of the model, that is not
  archived and that every term of the domain holds of. \<open>None\<close> is the empty recordset.
\<close>

type_synonym domain = "(string \<times> string \<times> fval) list"

definition holds :: "env \<Rightarrow> vals \<Rightarrow> string \<times> string \<times> fval \<Rightarrow> bool" where
  "holds env r term =
     (case term of (f, operator, v) \<Rightarrow>
        if operator = ''='' then field r f = v
        else if operator = ''=ilike''
        then (case (field r f, v) of (FStr text, FStr pattern) \<Rightarrow> ilike env pattern text | _ \<Rightarrow> False)
        else False)"

definition archived :: "vals \<Rightarrow> bool" where
  "archived r = (map_of r ''active'' = Some FFalse)"

definition search :: "env \<Rightarrow> string \<Rightarrow> domain \<Rightarrow> (nat \<times> vals) option op" where
  "search env model domain s =
     (Inr (find (\<lambda>(i, r). \<not> archived r \<and> list_all (holds env r) domain)
                (search_order env model (table_of (tables s) model))), s)"

text \<open>The values stored by a \<open>create\<close> or a \<open>write\<close>, field by field.\<close>

definition stored :: "fval \<Rightarrow> fval \<Rightarrow> fval" where
  "stored old new =
     (case new of
        FLink ids \<Rightarrow> (case old of FIds olds \<Rightarrow> FIds (olds @ filter (\<lambda>i. i \<notin> set olds) ids)
                              | _ \<Rightarrow> FIds (remdups ids))
      | _ \<Rightarrow> new)"

fun store_vals :: "vals \<Rightarrow> vals \<Rightarrow> vals" where
  "store_vals r [] = r"
| "store_vals r ((f, v) # vs) = store_vals (dict_set r f (stored (field r f) v)) vs"

definition set_table :: "string \<Rightarrow> table \<Rightarrow> store \<Rightarrow> store" where
  "set_table model t s = s\<lparr>tables := dict_set (tables s) model t\<rparr>"

definition insert_record :: "env \<Rightarrow> string \<Rightarrow> vals \<Rightarrow> store \<Rightarrow> store" where
  "insert_record env model v s =
     (set_table model
        (table_of (tables s) model @ [(next_id s, store_vals (defaults env model v) v)]) s)
     \<lparr>next_id := Suc (next_id s)\<rparr>"

definition update_record :: "string \<Rightarrow> nat \<Rightarrow> vals \<Rightarrow> store \<Rightarrow> store" where
  "update_record model i v s =
     set_table model
       (map (\<lambda>(j, r). if j = i then (j, store_vals r v) else (j, r)) (table_of (tables s) model)) s"

definition create :: "env \<Rightarrow> string \<Rightarrow> vals \<Rightarrow> nat op" where
  "create env model v s =
     (case create_outcome env model v (tables s) of
        Done \<Rightarrow> (Inr (next_id s), insert_record env model v s)
      | RaisesBefore e \<Rightarrow> (Inl e, s)
      | RaisesAfter e \<Rightarrow> (Inl e, insert_record env model v s))"

definition write_rec :: "env \<Rightarrow> string \<Rightarrow> nat \<Rightarrow> vals \<Rightarrow> unit op" where
  "write_rec env model i v s =
     (case write_outcome env model i v (tables s) of
        Done \<Rightarrow> (Inr (), update_record model i v s)
      | RaisesBefore e \<Rightarrow> (Inl e, s)
      | RaisesAfter e \<Rightarrow> (Inl e, update_record model i v s))"

text \<open>Reading and writing the wizard and its lines, which no constraint guards.\<close>

definition get_self :: "wizard op" where
  "get_self s = (Inr (self s), s)"

definition set_line :: "nat \<Rightarrow> (int line \<Rightarrow> int line) \<Rightarrow> unit op" where
  "set_line i f s =
     (Inr (), s\<lparr>self := (self s)\<lparr>line_ids := (line_ids (self s))[i := f (line_ids (self s) ! i)]\<rparr>\<rparr>)"

text \<open>Truth of an id, and \<open>id or False\<close>.\<close>

definition id_or_False :: "nat option \<Rightarrow> fval" where
  "id_or_False i = (case i of None \<Rightarrow> FFalse | Some n \<Rightarrow> if n = 0 then FFalse else FId n)"

definition str_or_False :: "string \<Rightarrow> fval" where
  "str_or_False s = (if s = '''' then FFalse else FStr s)"

section \<open>Validation\<close>

subsection \<open>Texts of the messages\<close>

definition quoted :: "string \<Rightarrow> string" where
  "quoted s = dq # s @ [dq]"

fun join :: "string \<Rightarrow> string list \<Rightarrow> string" where
  "join sep [] = ''''"
| "join sep [x] = x"
| "join sep (x # y # ys) = x @ sep @ join sep (y # ys)"

text \<open>The text of a \<open>Char\<close> field in an f-string: \<open>False\<close> when the field is not set.\<close>

definition text_of :: "fval \<Rightarrow> string" where
  "text_of v = (case v of FStr s \<Rightarrow> s | _ \<Rightarrow> ''False'')"

text \<open>\<open>get(label) or ''\<close>\<close>

definition or_empty :: "cell \<Rightarrow> cell" where
  "or_empty v = (if truthy v then v else CStr '''')"

subsection \<open>\<open>_resolve_employee_ref\<close>\<close>

text \<open>\<open>sudo()\<close> lifts the access rules, which the store does not have.\<close>

definition resolve_employee_ref :: "env \<Rightarrow> string \<Rightarrow> nat option op" where
  "resolve_employee_ref env reference =
     (if reference = '''' then ret None
      else bnd (search env ''hr.employee'' [(''employee_id_no'', ''='', FStr reference)]) (\<lambda>emp.
        case emp of
          Some (i, r) \<Rightarrow> ret (Some i)
        | None \<Rightarrow>
            bnd (search env ''hr.employee'' [(''work_email'', ''='', FStr reference)]) (\<lambda>emp.
              ret (map_option fst emp))))"

text \<open>\<open>not found\<close>, for the id or \<open>None\<close> that \<open>_resolve_employee_ref\<close> returns.\<close>

definition not_found :: "nat option \<Rightarrow> bool" where
  "not_found found = (found = None \<or> found = Some 0)"

subsection \<open>\<open>_validate_row\<close>\<close>

text \<open>The function, section by section; each section gives the errors it appends.\<close>

definition required :: "runtime \<Rightarrow> row \<Rightarrow> string \<Rightarrow> string \<Rightarrow> string list" where
  "required rt row_data label message =
     (if parse_str rt (get row_data label) = '''' then [message] else [])"

definition required_errors :: "runtime \<Rightarrow> row \<Rightarrow> string list" where
  "required_errors rt row_data =
     required rt row_data ''Business Unit'' ''Business Unit (company_id) is required.''
     @ required rt row_data ''Employee Name'' ''Employee Name is required.''
     @ required rt row_data ''Employee ID'' ''Employee ID is required.''
     @ required rt row_data ''Device ID'' ''Device ID is required.''
     @ required rt row_data ''Work Email'' ''Work Email is required.''
     @ required rt row_data ''Permanent Address'' ''Permanent Address is required.''
     @ required rt row_data ''Present Address'' ''Present Address is required.''
     @ (if \<not> truthy (get row_data ''Date of Birth'') then [''Date of Birth is required.''] else [])
     @ required rt row_data ''Gender'' ''Gender is required.''
     @ required rt row_data ''Religion'' ''Religion is required.''
     @ required rt row_data ''NID No'' ''NID No is required.''
     @ required rt row_data ''Place of Birth'' ''Place of Birth is required.''
     @ required rt row_data ''Nationality (Country)'' ''Nationality (Country) is required.''
     @ required rt row_data ''Employee Type'' ''Employee Type is required.''
     @ required rt row_data ''Employment Type'' ''Employment Type is required.''"

text \<open>Company resolution: the id of the company, if there is one, and the errors.\<close>

definition company_resolution :: "env \<Rightarrow> string \<Rightarrow> (nat option \<times> string list) op" where
  "company_resolution env company_name =
     (if company_name = '''' then ret (None, [])
      else bnd (search env ''res.company'' [(''name'', ''='', FStr company_name)]) (\<lambda>company.
        case company of
          None \<Rightarrow> ret (None, [''Company '' @ quoted company_name @ '' not found.''])
        | Some (i, r) \<Rightarrow> ret (Some i, [])))"

text \<open>Uniqueness checks in the existing directory.\<close>

definition existing_employee_errors :: "env \<Rightarrow> string \<Rightarrow> string \<Rightarrow> string \<Rightarrow> string list op" where
  "existing_employee_errors env fname label v =
     (if v = '''' then ret []
      else bnd (search env ''hr.employee'' [(fname, ''='', FStr v)]) (\<lambda>existing.
        case existing of
          None \<Rightarrow> ret []
        | Some (i, r) \<Rightarrow>
            ret [label @ '' '' @ quoted v @ '' already exists (employee: ''
                 @ text_of (field r ''name'') @ '').'']))"

definition existing_user_errors :: "env \<Rightarrow> string \<Rightarrow> string list op" where
  "existing_user_errors env email =
     (if email = '''' then ret []
      else bnd (search env ''res.users'' [(''login'', ''='', FStr email)]) (\<lambda>existing_user.
        case existing_user of
          None \<Rightarrow> ret []
        | Some (i, r) \<Rightarrow>
            ret [''Work Email '' @ quoted email @ '' is already used as login (user: ''
                 @ text_of (field r ''name'') @ '').'']))"

text \<open>
  Uniqueness within the upload: the loop \<open>for ln in self.line_ids\<close>, over the lines that the
  wizard holds when the row is validated, in the order \<open>row_no\<close> of the model.
\<close>

definition ordered :: "int line list \<Rightarrow> int line list" where
  "ordered lines = sort_key row_no lines"

definition duplicate_errors :: "string \<Rightarrow> string \<Rightarrow> string \<Rightarrow> int line \<Rightarrow> string list" where
  "duplicate_errors emp_id_no device_id email ln =
     (if emp_id_no \<noteq> '''' \<and> employee_id_no ln = emp_id_no
      then [''Duplicate Employee ID '' @ quoted emp_id_no @ '' in this upload batch (row ''
            @ str_int (row_no ln) @ '').'']
      else [])
     @ (if device_id \<noteq> '''' \<and> device_user_id ln = device_id
        then [''Duplicate Device ID '' @ quoted device_id @ '' in this upload batch (row ''
              @ str_int (row_no ln) @ '').'']
        else [])
     @ (if email \<noteq> '''' \<and> work_email ln = email
        then [''Duplicate Work Email '' @ quoted email @ '' in this upload batch (row ''
              @ str_int (row_no ln) @ '').'']
        else [])"

definition batch_errors :: "string \<Rightarrow> string \<Rightarrow> string \<Rightarrow> string list op" where
  "batch_errors emp_id_no device_id email =
     bnd get_self (\<lambda>w.
       ret (concat (map (duplicate_errors emp_id_no device_id email) (ordered (line_ids w)))))"

text \<open>Department and job resolution.\<close>

definition department_errors :: "env \<Rightarrow> string \<Rightarrow> string \<Rightarrow> nat option \<Rightarrow> string list op" where
  "department_errors env dept_name company_name company_id =
     (case company_id of
        None \<Rightarrow> ret []
      | Some c \<Rightarrow>
          if dept_name \<noteq> '''' \<and> c \<noteq> 0
          then bnd (search env ''hr.department''
                      [(''name'', ''='', FStr dept_name), (''company_id'', ''='', FId c)])
                 (\<lambda>dept. bnd get_self (\<lambda>w.
                    if dept = None \<and> \<not> create_missing_departments w
                    then ret [''Department '' @ quoted dept_name @ '' not found under company ''
                              @ quoted company_name @ ''. Enable ''
                              @ quoted ''Create Missing Departments''
                              @ '' or add the department first.'']
                    else ret []))
          else ret [])"

definition job_errors :: "env \<Rightarrow> string \<Rightarrow> string list op" where
  "job_errors env job_name =
     (if job_name \<noteq> ''''
      then bnd (search env ''hr.job'' [(''name'', ''='', FStr job_name)])
             (\<lambda>job. bnd get_self (\<lambda>w.
                if job = None \<and> \<not> create_missing_jobs w
                then ret [''Designation '' @ quoted job_name @ '' not found. Enable ''
                          @ quoted ''Create Missing Designations'' @ '' or add it first.'']
                else ret []))
      else ret [])"

text \<open>Supervisor, dotted supervisor and line manager.\<close>

definition reference_errors :: "env \<Rightarrow> row \<Rightarrow> string \<Rightarrow> string list op" where
  "reference_errors env row_data label =
     (let raw_val = strip (py_str (py env) (or_empty (get row_data label)))
      in if raw_val \<noteq> ''''
         then bnd (resolve_employee_ref env raw_val) (\<lambda>found.
                if not_found found
                then ret [label @ '' '' @ quoted raw_val @ '' could not be resolved. ''
                          @ ''Provide either Employee ID or Work Email of an existing employee.'']
                else ret [])
         else ret [])"

text \<open>The two dates.\<close>

definition joining_date_errors :: "runtime \<Rightarrow> row \<Rightarrow> string list op" where
  "joining_date_errors rt row_data =
     (let joining_date_raw = get row_data ''Joining Date''
      in if \<not> truthy joining_date_raw \<or> strip (py_str rt joining_date_raw) = ''''
         then ret [''Joining Date is required.'']
         else bnd (lift (parse_date rt joining_date_raw)) (\<lambda>d.
                if d = None
                then ret [''Joining Date '' @ quoted (py_str rt joining_date_raw)
                          @ '' could not be parsed. Use DD/MM/YYYY or YYYY-MM-DD format.'']
                else ret []))"

definition birthday_errors :: "runtime \<Rightarrow> row \<Rightarrow> string list op" where
  "birthday_errors rt row_data =
     (let dob_raw = get row_data ''Date of Birth''
      in if truthy dob_raw \<and> strip (py_str rt dob_raw) \<noteq> ''''
         then bnd (lift (parse_date rt dob_raw)) (\<lambda>d.
                if d = None
                then ret [''Date of Birth '' @ quoted (py_str rt dob_raw)
                          @ '' could not be parsed as a date. Use DD/MM/YYYY or YYYY-MM-DD format.'']
                else ret [])
         else ret [])"

text \<open>
  The whole function. The dictionary it returns has no \<open>import_status\<close>; the field of the
  record holds the default of the model, \<open>pending\<close>.
\<close>

definition validate_row :: "env \<Rightarrow> row \<Rightarrow> cell line op" where
  "validate_row env row_data =
     (let row_number = (case map_of row_data ''_row_no'' of None \<Rightarrow> CStr ''?'' | Some v \<Rightarrow> v);
          company_name = parse_str (py env) (get row_data ''Business Unit'');
          emp_name = parse_str (py env) (get row_data ''Employee Name'');
          emp_id_no = parse_str (py env) (get row_data ''Employee ID'');
          device_id = parse_str (py env) (get row_data ''Device ID'');
          email = parse_str (py env) (get row_data ''Work Email'');
          dept_name = parse_str (py env) (get row_data ''Department'');
          job_name = parse_str (py env) (get row_data ''Designation'')
      in bnd (company_resolution env company_name) (\<lambda>(company_id, e1).
         bnd (existing_employee_errors env ''employee_id_no'' ''Employee ID'' emp_id_no) (\<lambda>e2.
         bnd (existing_employee_errors env ''device_user_id'' ''Device ID'' device_id) (\<lambda>e3.
         bnd (existing_user_errors env email) (\<lambda>e4.
         bnd (batch_errors emp_id_no device_id email) (\<lambda>e5.
         bnd (department_errors env dept_name company_name company_id) (\<lambda>e6.
         bnd (job_errors env job_name) (\<lambda>e7.
         bnd (reference_errors env row_data ''Supervisor'') (\<lambda>e8.
         bnd (reference_errors env row_data ''Dotted Supervisor'') (\<lambda>e9.
         bnd (reference_errors env row_data ''Line Manager'') (\<lambda>e10.
         bnd (joining_date_errors (py env) row_data) (\<lambda>e11.
         bnd (birthday_errors (py env) row_data) (\<lambda>e12.
           let errors = required_errors (py env) row_data @ e1 @ e2 @ e3 @ e4 @ e5 @ e6 @ e7
                        @ e8 @ e9 @ e10 @ e11 @ e12
           in ret \<lparr>row_no = row_number,
                    employee_id_no = emp_id_no,
                    device_user_id = device_id,
                    name = emp_name,
                    work_email = email,
                    company = company_name,
                    department = dept_name,
                    job = job_name,
                    is_valid = (errors = []),
                    import_status = ''pending'',
                    error_text = join [nl] errors\<rparr>)))))))))))))"

subsection \<open>\<open>action_validate\<close>\<close>

text \<open>The loop over the rows, which appends the result of each row to \<open>validated_lines\<close>.\<close>

fun validate_rows :: "env \<Rightarrow> row list \<Rightarrow> cell line list op" where
  "validate_rows env [] = ret []"
| "validate_rows env (row_data # rows) =
     bnd (validate_row env row_data) (\<lambda>line_vals.
     bnd (validate_rows env rows) (\<lambda>validated_lines.
       ret (line_vals # validated_lines)))"

text \<open>
  The ORM stores the row number in the \<open>Integer\<close> field \<open>row_no\<close> as \<open>int(value or 0)\<close>,
  which raises on a date and on a text that is not a number.
\<close>

definition to_integer :: "env \<Rightarrow> cell \<Rightarrow> exn + int" where
  "to_integer env v =
     (if \<not> truthy v then Inr 0
      else case v of
        CStr s \<Rightarrow> to_int env s
      | CInt i \<Rightarrow> Inr i
      | CFloat x \<Rightarrow> Inr (int_of_float x)
      | CBool b \<Rightarrow> Inr 1
      | _ \<Rightarrow> Inl (Exception ''int() argument must be a string, a bytes-like object or a real number''))"

definition new_line :: "env \<Rightarrow> cell line \<Rightarrow> exn + int line" where
  "new_line env v =
     (case to_integer env (row_no v) of
        Inl e \<Rightarrow> Inl e
      | Inr n \<Rightarrow>
          Inr \<lparr>row_no = n,
               employee_id_no = employee_id_no v,
               device_user_id = device_user_id v,
               name = name v,
               work_email = work_email v,
               company = company v,
               department = department v,
               job = job v,
               is_valid = is_valid v,
               import_status = import_status v,
               error_text = error_text v\<rparr>)"

fun new_lines :: "env \<Rightarrow> cell line list \<Rightarrow> exn + int line list" where
  "new_lines env [] = Inr []"
| "new_lines env (v # vs) =
     (case new_line env v of
        Inl e \<Rightarrow> Inl e
      | Inr ln \<Rightarrow> (case new_lines env vs of Inl e \<Rightarrow> Inl e | Inr lns \<Rightarrow> Inr (ln # lns)))"

definition unlink_lines :: "unit op" where
  "unlink_lines s = (Inr (), s\<lparr>self := (self s)\<lparr>line_ids := []\<rparr>\<rparr>)"

definition write_preview :: "int line list \<Rightarrow> unit op" where
  "write_preview lines s =
     (Inr (), s\<lparr>self := (self s)\<lparr>line_ids := line_ids (self s) @ lines, state := ''preview''\<rparr>\<rparr>)"

text \<open>The action returns the window action that opens the wizard again, \<open>()\<close> here.\<close>

definition action_validate :: "env \<Rightarrow> unit op" where
  "action_validate env =
     bnd get_self (\<lambda>w.
       case file_bin w of
         None \<Rightarrow> raise (UserError ''Please upload an Excel file first.'')
       | Some f \<Rightarrow>
           bnd (lift (parse_excel (py env) f)) (\<lambda>rows.
           bnd unlink_lines (\<lambda>u.
           bnd (validate_rows env rows) (\<lambda>validated_lines.
           bnd (lift (new_lines env validated_lines)) (\<lambda>lines.
             write_preview lines)))))"

section \<open>Import\<close>

subsection \<open>More on texts\<close>

text \<open>\<open>str.lower()\<close> on code points below 256, and \<open>str.split(',')\<close>.\<close>

definition lower_char :: "char \<Rightarrow> char" where
  "lower_char c =
     (let n = (of_char c :: nat)
      in if (65 \<le> n \<and> n \<le> 90) \<or> (192 \<le> n \<and> n \<le> 222 \<and> n \<noteq> 215)
         then char_of (n + 32) else c)"

definition lower :: "string \<Rightarrow> string" where
  "lower s = map lower_char s"

fun split_on :: "char \<Rightarrow> string \<Rightarrow> string list" where
  "split_on c [] = [[]]"
| "split_on c (x # xs) =
     (if x = c then [] # split_on c xs
      else case split_on c xs of p # ps \<Rightarrow> (x # p) # ps | [] \<Rightarrow> [[x]])"

text \<open>
  The en dash of a message, U+2013, which is not a code point below 256, is written as its
  three bytes in UTF-8; no function of the module looks into a message.
\<close>

definition en_dash :: string where
  "en_dash = [CHR 0xE2, CHR 0x80, CHR 0x93]"

subsection \<open>The parts of \<open>_import_row\<close>\<close>

text \<open>
  The dictionary that \<open>_import_row\<close> returns has the key \<open>error\<close>, or the six keys of an
  imported row. \<open>error_of result\<close> is \<open>result.get('error')\<close>, where \<open>None\<close> is the empty text:
  both are false.
\<close>

type_synonym result = "(string \<times> string) list"

definition error_of :: "result \<Rightarrow> string" where
  "error_of r = (case map_of r ''error'' of None \<Rightarrow> '''' | Some e \<Rightarrow> e)"

definition read_rec :: "string \<Rightarrow> nat \<Rightarrow> vals op" where
  "read_rec model i s = (Inr (browse (tables s) model i), s)"

definition truthy_id :: "fval \<Rightarrow> bool" where
  "truthy_id v = (case v of FId n \<Rightarrow> n \<noteq> 0 | _ \<Rightarrow> False)"

text \<open>Department and job: found, or created when the wizard says so, or \<open>False\<close>.\<close>

definition resolve_department :: "env \<Rightarrow> string \<Rightarrow> nat \<Rightarrow> fval op" where
  "resolve_department env dept_name company_id =
     (if dept_name = '''' then ret FFalse
      else bnd (search env ''hr.department''
                  [(''name'', ''='', FStr dept_name), (''company_id'', ''='', FId company_id)])
             (\<lambda>dept. bnd get_self (\<lambda>w.
                case dept of
                  Some (i, r) \<Rightarrow> ret (FId i)
                | None \<Rightarrow>
                    if create_missing_departments w
                    then bnd (create env ''hr.department''
                                [(''name'', FStr dept_name), (''company_id'', FId company_id)])
                           (\<lambda>i. ret (FId i))
                    else ret FFalse)))"

definition resolve_job :: "env \<Rightarrow> string \<Rightarrow> fval op" where
  "resolve_job env job_name =
     (if job_name = '''' then ret FFalse
      else bnd (search env ''hr.job'' [(''name'', ''='', FStr job_name)])
             (\<lambda>found. bnd get_self (\<lambda>w.
                case found of
                  Some (i, r) \<Rightarrow> ret (FId i)
                | None \<Rightarrow>
                    if create_missing_jobs w
                    then bnd (create env ''hr.job'' [(''name'', FStr job_name)]) (\<lambda>i. ret (FId i))
                    else ret FFalse)))"

text \<open>Religion, blood group and contract type: found by \<open>=ilike\<close>, or created.\<close>

definition find_or_create :: "env \<Rightarrow> string \<Rightarrow> string \<Rightarrow> nat option op" where
  "find_or_create env model v =
     (if v = '''' then ret None
      else bnd (search env model [(''name'', ''=ilike'', FStr v)]) (\<lambda>found.
             case found of
               Some (i, r) \<Rightarrow> ret (Some i)
             | None \<Rightarrow> bnd (create env model [(''name'', FStr v)]) (\<lambda>i. ret (Some i))))"

definition resolve_country :: "env \<Rightarrow> string \<Rightarrow> nat option op" where
  "resolve_country env country_name =
     (if country_name = '''' then ret None
      else bnd (search env ''res.country'' [(''name'', ''=ilike'', FStr country_name)]) (\<lambda>country.
             ret (map_option fst country)))"

definition date_or_False :: "pydate option \<Rightarrow> fval" where
  "date_or_False d = (case d of None \<Rightarrow> FFalse | Some x \<Rightarrow> FDate x)"

definition gender_of :: "string \<Rightarrow> fval" where
  "gender_of gender_raw =
     (if gender_raw \<in> set [''male'', ''female'', ''other''] then FStr gender_raw else FFalse)"

text \<open>The employee type; the empty text is \<open>False\<close>.\<close>

definition final_emp_type :: "env \<Rightarrow> string \<Rightarrow> string" where
  "final_emp_type env emp_type_raw =
     (if emp_type_raw = '''' then ''''
      else
        let matched =
              (case employee_type_selection env of
                 Inl e \<Rightarrow> ''''
               | Inr selection \<Rightarrow>
                   (case find (\<lambda>(key, label). lower emp_type_raw = lower key
                                               \<or> lower emp_type_raw = lower label) selection of
                      None \<Rightarrow> ''''
                    | Some (key, label) \<Rightarrow> key))
        in if matched = '''' \<and> lower emp_type_raw = ''freelancer'' then ''freelance''
           else if matched = '''' then lower emp_type_raw
           else matched)"

text \<open>
  The creation of the employee, with the phone fields written once more: the id of the
  employee, or the message of the error that \<open>_import_row\<close> returns.
\<close>

definition create_employee :: "env \<Rightarrow> vals \<Rightarrow> (string + nat) op" where
  "create_employee env employee_vals =
     try_except
       (bnd (create env ''hr.employee'' employee_vals) (\<lambda>employee.
          let phone_vals = filter (\<lambda>(f, v). v \<noteq> FFalse)
                [(''work_phone'', field employee_vals ''work_phone''),
                 (''mobile_phone'', field employee_vals ''mobile_phone''),
                 (''private_phone'', field employee_vals ''private_phone'')]
          in if phone_vals \<noteq> []
             then bnd (write_rec env ''hr.employee'' employee phone_vals) (\<lambda>u. ret (Inr employee))
             else ret (Inr employee)))
       (\<lambda>exc. ret (Inl (''Failed to create employee: '' @ exn_str exc)))"

text \<open>The bank accounts, one after the other.\<close>

definition partner_id_of :: "nat \<Rightarrow> fval op" where
  "partner_id_of employee =
     bnd (read_rec ''hr.employee'' employee) (\<lambda>employee_rec.
       if truthy_id (field employee_rec ''work_contact_id'')
       then ret (field employee_rec ''work_contact_id'')
       else case field employee_rec ''company_id'' of
              FId c \<Rightarrow> bnd (read_rec ''res.company'' c) (\<lambda>company_rec.
                         ret (field company_rec ''partner_id''))
            | _ \<Rightarrow> ret FFalse)"

fun link_bank_accounts :: "env \<Rightarrow> nat \<Rightarrow> string list \<Rightarrow> unit op" where
  "link_bank_accounts env employee [] = ret ()"
| "link_bank_accounts env employee (acc_number # bank_acc_list) =
     bnd (partner_id_of employee) (\<lambda>partner_id.
     bnd (read_rec ''hr.employee'' employee) (\<lambda>employee_rec.
     bnd (search env ''res.partner.bank'' [(''acc_number'', ''='', FStr acc_number)]) (\<lambda>bank_acc.
     bnd (case bank_acc of
            Some (i, r) \<Rightarrow> ret i
          | None \<Rightarrow>
              create env ''res.partner.bank''
                ([(''acc_number'', FStr acc_number),
                  (''company_id'', field employee_rec ''company_id'')]
                 @ (if truthy_id partner_id then [(''partner_id'', partner_id)] else [])))
       (\<lambda>bank_id.
     bnd (write_rec env ''hr.employee'' employee [(''bank_account_ids'', FLink [bank_id])]) (\<lambda>u.
       link_bank_accounts env employee bank_acc_list)))))"

definition bank_accounts :: "env \<Rightarrow> nat \<Rightarrow> string \<Rightarrow> unit op" where
  "bank_accounts env employee bank_accounts_str =
     (if bank_accounts_str = '''' then ret ()
      else link_bank_accounts env employee
             (filter (\<lambda>b. b \<noteq> '''') (map strip (split_on (CHR '','') bank_accounts_str))))"

text \<open>
  The password, and the user: \<open>None\<close>, or the message of the error that \<open>_import_row\<close>
  returns. \<open>env.ref\<close> raises on an external id that does not exist.
\<close>

definition random_password :: "env \<Rightarrow> string op" where
  "random_password env s = (Inr (password_of env (draws s)), s\<lparr>draws := Suc (draws s)\<rparr>)"

definition env_ref :: "env \<Rightarrow> string \<Rightarrow> nat op" where
  "env_ref env xml_id =
     (case ref env xml_id of
        None \<Rightarrow> raise (Exception (''External ID not found in the system: '' @ xml_id))
      | Some i \<Rightarrow> ret i)"

definition create_user :: "env \<Rightarrow> nat \<Rightarrow> string \<Rightarrow> string \<Rightarrow> nat \<Rightarrow> string \<Rightarrow> string option op" where
  "create_user env employee emp_name email company_id password =
     try_except
       (bnd (env_ref env ''base.group_user'') (\<lambda>group_user.
        bnd (search env ''res.groups'' [(''name'', ''='', FStr ''Normal Employees'')]) (\<lambda>normal_emp_group.
          let groups_list = group_user # (case normal_emp_group of Some (i, r) \<Rightarrow> [i] | None \<Rightarrow> []);
              user_vals = [(''name'', FStr emp_name),
                           (''login'', FStr email),
                           (''email'', FStr email),
                           (''company_id'', FId company_id),
                           (''company_ids'', FLink [company_id]),
                           (''group_ids'', FIds groups_list)]
          in bnd (create env ''res.users'' user_vals) (\<lambda>user.
             bnd (write_rec env ''res.users'' user [(''password'', FStr (hash_of env password))]) (\<lambda>u.
             bnd (write_rec env ''hr.employee'' employee [(''user_id'', FId user)]) (\<lambda>u.
               ret None))))))
       (\<lambda>exc. ret (Some (''Failed to create user for employee: '' @ exn_str exc)))"

subsection \<open>\<open>_import_row\<close>\<close>

definition import_row :: "env \<Rightarrow> row \<Rightarrow> result op" where
  "import_row env row_data =
     (let rt = py env;
          company_name = parse_str rt (get row_data ''Business Unit'');
          emp_name = parse_str rt (get row_data ''Employee Name'');
          emp_id_no = parse_str rt (get row_data ''Employee ID'');
          device_id = parse_str rt (get row_data ''Device ID'');
          email = parse_str rt (get row_data ''Work Email'');
          dept_name = parse_str rt (get row_data ''Department'');
          job_name = parse_str rt (get row_data ''Designation'')
      in bnd (search env ''res.company'' [(''name'', ''='', FStr company_name)]) (\<lambda>found.
         case found of
           None \<Rightarrow> ret [(''error'', ''Company '' @ quoted company_name @ '' not found.'')]
         | Some (company_id, company_rec) \<Rightarrow>
         bnd (resolve_department env dept_name company_id) (\<lambda>dept_id.
         bnd (resolve_job env job_name) (\<lambda>job_id.
         bnd (resolve_employee_ref env (parse_str rt (get row_data ''Supervisor''))) (\<lambda>supervisor_id.
         bnd (resolve_employee_ref env (parse_str rt (get row_data ''Dotted Supervisor''))) (\<lambda>dotted_supervisor_id.
         bnd (resolve_employee_ref env (parse_str rt (get row_data ''Line Manager''))) (\<lambda>parent_id.
         bnd (find_or_create env ''hr.religion'' (parse_str rt (get row_data ''Religion''))) (\<lambda>religion_id.
         bnd (find_or_create env ''hr.blood.group'' (parse_str rt (get row_data ''Blood Group''))) (\<lambda>blood_group_id.
         bnd (resolve_country env (parse_str rt (get row_data ''Nationality (Country)''))) (\<lambda>country_id.
         bnd (lift (parse_date rt (get row_data ''Joining Date''))) (\<lambda>joining_date.
         bnd (lift (parse_date rt (get row_data ''Date of Birth''))) (\<lambda>birthday.
         bnd (find_or_create env ''hr.contract.type'' (parse_str rt (get row_data ''Employment Type''))) (\<lambda>contract_type_id.
           let gender = gender_of (lower (parse_str rt (get row_data ''Gender'')));
               emp_type = final_emp_type env (parse_str rt (get row_data ''Employee Type''));
               employee_vals =
                 [(''name'', FStr emp_name),
                  (''company_id'', FId company_id),
                  (''employee_id_no'', FStr emp_id_no),
                  (''device_user_id'', FStr device_id),
                  (''work_email'', FStr email),
                  (''work_phone'', str_or_False (parse_str rt (get row_data ''Work Phone Number''))),
                  (''mobile_phone'', str_or_False (parse_str rt (get row_data ''Work Mobile''))),
                  (''identification_id'', str_or_False (parse_str rt (get row_data ''NID No''))),
                  (''employee_type'', str_or_False emp_type),
                  (''contract_type_id'', id_or_False contract_type_id),
                  (''personal_email'', str_or_False (parse_str rt (get row_data ''Personal Email''))),
                  (''private_email'', str_or_False (parse_str rt (get row_data ''Private Email''))),
                  (''private_phone'', str_or_False (parse_str rt (get row_data ''Personal Phone''))),
                  (''permanent_address'',
                     str_or_False (strip (py_str rt (or_empty (get row_data ''Permanent Address''))))),
                  (''present_address'',
                     str_or_False (strip (py_str rt (or_empty (get row_data ''Present Address''))))),
                  (''department_id'', dept_id),
                  (''job_id'', job_id),
                  (''supervisor_id'', id_or_False supervisor_id),
                  (''dotted_supervisor_id'', id_or_False dotted_supervisor_id),
                  (''parent_id'', id_or_False parent_id),
                  (''religion_id'', id_or_False religion_id),
                  (''blood_group_id'', id_or_False blood_group_id),
                  (''birthday'', date_or_False birthday),
                  (''sex'', gender),
                  (''tin_number'', str_or_False (parse_str rt (get row_data ''TIN Number''))),
                  (''place_of_birth'', str_or_False (parse_str rt (get row_data ''Place of Birth''))),
                  (''country_id'', id_or_False country_id),
                  (''hr_responsible_id'', FId (uid env))]
                 @ (case joining_date of None \<Rightarrow> [] | Some d \<Rightarrow> [(''joining_date'', FDate d)])
           in bnd (create_employee env employee_vals) (\<lambda>created.
              case created of
                Inl err \<Rightarrow> ret [(''error'', err)]
              | Inr employee \<Rightarrow>
              bnd (bank_accounts env employee (parse_str rt (get row_data ''Bank Accounts''))) (\<lambda>u.
              bnd (random_password env) (\<lambda>password.
              bnd (create_user env employee emp_name email company_id password) (\<lambda>failed.
                case failed of
                  Some err \<Rightarrow> ret [(''error'', err)]
                | None \<Rightarrow>
                    ret [(''employee_name'', emp_name),
                         (''login_email'', email),
                         (''password'', password),
                         (''company'', company_name),
                         (''department'', dept_name),
                         (''designation'', job_name)])))))))))))))))))"

subsection \<open>\<open>action_confirm_import\<close>\<close>

text \<open>
  \<open>line_by_row\<close> is the dictionary from the row number of a line to the line, here the
  index of the line among the lines of the wizard; of two lines with one row number the
  dictionary keeps the later. \<open>lookup_line\<close> is \<open>line_by_row.get(row_no)\<close>, for the cell that
  the row holds as its number: a key of the dictionary is an \<open>int\<close>, which an \<open>int\<close>, a
  \<open>bool\<close> or a float of the same value is equal to.
\<close>

definition line_by_row :: "int line list \<Rightarrow> (int \<times> nat) list" where
  "line_by_row lines =
     foldl (\<lambda>d (i, ln). dict_set d (row_no ln) i) []
       (sort_key (\<lambda>(i, ln). row_no ln) (enumerate 0 lines))"

definition same_number :: "cell \<Rightarrow> int \<Rightarrow> bool" where
  "same_number v n =
     (case v of
        CInt i \<Rightarrow> i = n
      | CBool b \<Rightarrow> (if b then 1 else 0) = n
      | CFloat x \<Rightarrow> is_integer x \<and> int_of_float x = n
      | _ \<Rightarrow> False)"

definition lookup_line :: "(int \<times> nat) list \<Rightarrow> cell \<Rightarrow> nat option" where
  "lookup_line d row_number = map_option snd (find (\<lambda>(n, i). same_number row_number n) d)"

text \<open>\<open>row_data['_row_no']\<close>, which raises \<open>KeyError\<close> on a row without the key.\<close>

definition subscript :: "row \<Rightarrow> string \<Rightarrow> exn + cell" where
  "subscript row_data k =
     (case map_of row_data k of
        None \<Rightarrow> Inl (Exception ([CHR 0x27] @ k @ [CHR 0x27]))
      | Some v \<Rightarrow> Inr v)"

text \<open>\<open>if line: line.import_status = ...\<close>, and the same with the text of the error.\<close>

definition set_status :: "nat option \<Rightarrow> string \<Rightarrow> unit op" where
  "set_status ln status =
     (case ln of None \<Rightarrow> ret () | Some i \<Rightarrow> set_line i (\<lambda>l. l\<lparr>import_status := status\<rparr>))"

definition set_failed :: "nat option \<Rightarrow> string \<Rightarrow> unit op" where
  "set_failed ln err =
     (case ln of
        None \<Rightarrow> ret ()
      | Some i \<Rightarrow> set_line i (\<lambda>l. l\<lparr>import_status := ''failed'', error_text := err\<rparr>))"

text \<open>\<open>line and not line.is_valid\<close>: the line, when there is one and it is not valid.\<close>

definition invalid_line :: "wizard \<Rightarrow> nat option \<Rightarrow> int line option" where
  "invalid_line w ln =
     (case ln of
        None \<Rightarrow> None
      | Some i \<Rightarrow> if is_valid (line_ids w ! i) then None else Some (line_ids w ! i))"

text \<open>
  The loop of the policy \<open>stop_on_error\<close>. What it appends to \<open>failed_rows\<close> is lost when it
  raises, which it does at once.
\<close>

fun import_stop :: "env \<Rightarrow> (int \<times> nat) list \<Rightarrow> row list \<Rightarrow> result list \<Rightarrow> result list op" where
  "import_stop env d [] results = ret results"
| "import_stop env d (row_data # rows) results =
     bnd (lift (subscript row_data ''_row_no'')) (\<lambda>row_number.
     bnd get_self (\<lambda>w.
       case invalid_line w (lookup_line d row_number) of
         Some ln \<Rightarrow>
           bnd (set_status (lookup_line d row_number) ''failed'') (\<lambda>u.
             raise (UserError (''Row '' @ py_str (py env) row_number @ '' has validation errors ''
                               @ en_dash @ '' aborting import.'' @ [nl, nl] @ error_text ln)))
       | None \<Rightarrow>
           bnd (import_row env row_data) (\<lambda>result.
             if error_of result \<noteq> ''''
             then bnd (set_failed (lookup_line d row_number) (error_of result)) (\<lambda>u.
                    raise (UserError (''Row '' @ py_str (py env) row_number
                                      @ '' failed during import: '' @ error_of result)))
             else bnd (set_status (lookup_line d row_number) ''success'') (\<lambda>u.
                    import_stop env d rows (results @ [result])))))"

text \<open>
  One row of the policy of partial import, inside its savepoint: the result of the row, or
  the exception.
\<close>

definition import_in_savepoint :: "env \<Rightarrow> nat option \<Rightarrow> row \<Rightarrow> result op" where
  "import_in_savepoint env ln row_data =
     savepoint
       (bnd (import_row env row_data) (\<lambda>result.
          if error_of result \<noteq> '''' then raise (Exception (error_of result))
          else bnd (set_status ln ''success'') (\<lambda>u. ret result)))"

fun import_partial ::
  "env \<Rightarrow> (int \<times> nat) list \<Rightarrow> row list \<Rightarrow> result list \<times> (cell \<times> string) list
   \<Rightarrow> (result list \<times> (cell \<times> string) list) op" where
  "import_partial env d [] acc = ret acc"
| "import_partial env d (row_data # rows) acc =
     bnd (lift (subscript row_data ''_row_no'')) (\<lambda>row_number.
     bnd get_self (\<lambda>w.
       case invalid_line w (lookup_line d row_number) of
         Some ln \<Rightarrow>
           bnd (set_status (lookup_line d row_number) ''failed'') (\<lambda>u.
             import_partial env d rows (fst acc, snd acc @ [(row_number, error_text ln)]))
       | None \<Rightarrow>
           bnd (try_except
                  (bnd (import_in_savepoint env (lookup_line d row_number) row_data) (\<lambda>result.
                     ret (fst acc @ [result], snd acc)))
                  (\<lambda>exc.
                     bnd (set_failed (lookup_line d row_number) (exn_str exc)) (\<lambda>u.
                       ret (fst acc, snd acc @ [(row_number, exn_str exc)]))))
             (\<lambda>acc'. import_partial env d rows acc')))"

text \<open>The two workbooks, \<open>(False, False)\<close> when there is nothing to write.\<close>

definition build_output_excel :: "env \<Rightarrow> result list \<Rightarrow> exn + string option \<times> string option" where
  "build_output_excel env results =
     (if results = [] then Inr (None, None)
      else if \<not> openpyxl (py env)
      then Inl (UserError ''openpyxl is required. Install it with: pip install openpyxl'')
      else Inr (Some (output_excel env results),
                Some (''employee_import_output_'' @ str_date (today env) @ ''.xlsx'')))"

definition build_error_excel ::
  "env \<Rightarrow> (cell \<times> string) list \<Rightarrow> exn + string option \<times> string option" where
  "build_error_excel env failed_rows =
     (if failed_rows = [] then Inr (None, None)
      else if \<not> openpyxl (py env) then Inl (UserError ''openpyxl is required.'')
      else Inr (Some (error_excel env failed_rows),
                Some (''employee_import_errors_'' @ str_date (today env) @ ''.xlsx'')))"

definition summary_of :: "nat \<Rightarrow> nat \<Rightarrow> nat \<Rightarrow> string" where
  "summary_of n_rows n_results n_failed =
     join [nl] [''Total rows: '' @ str_nat n_rows,
                ''Imported:   '' @ str_nat n_results,
                ''Failed:     '' @ str_nat n_failed]"

definition opt_str :: "string option \<Rightarrow> fval" where
  "opt_str v = (case v of None \<Rightarrow> FFalse | Some s \<Rightarrow> FStr s)"

text \<open>
  \<open>base64.b64decode\<close> raises on the \<open>False\<close> of a field that is not set, inside the \<open>try\<close> of
  \<open>_parse_excel\<close>.
\<close>

definition upload_of :: "upload option \<Rightarrow> upload" where
  "upload_of f =
     (case f of
        None \<Rightarrow> Unreadable (''argument should be a bytes-like object or ASCII string, not ''
                           @ [CHR 0x27] @ ''bool'' @ [CHR 0x27])
      | Some u \<Rightarrow> u)"

definition write_done ::
  "nat \<Rightarrow> string option \<times> string option \<Rightarrow> string option \<times> string option \<Rightarrow> string \<Rightarrow> unit op" where
  "write_done log out err summary s =
     (Inr (), s\<lparr>self := (self s)\<lparr>state := ''done'',
                                   import_log_id := Some log,
                                   output_file := fst out,
                                   output_filename := snd out,
                                   error_file := fst err,
                                   error_filename := snd err,
                                   import_summary := Some summary\<rparr>\<rparr>)"

definition action_confirm_import :: "env \<Rightarrow> unit op" where
  "action_confirm_import env =
     bnd get_self (\<lambda>w.
       if state w \<noteq> ''preview''
       then raise (UserError ''Please validate the file before importing.'')
       else
         bnd (lift (parse_excel (py env) (upload_of (file_bin w)))) (\<lambda>rows.
         bnd (if stop_on_error w
              then bnd (import_stop env (line_by_row (line_ids w)) rows []) (\<lambda>results. ret (results, []))
              else import_partial env (line_by_row (line_ids w)) rows ([], [])) (\<lambda>done.
         bnd (lift (build_output_excel env (fst done))) (\<lambda>out.
         bnd (lift (build_error_excel env (snd done))) (\<lambda>err.
           let summary = summary_of (length rows) (length (fst done)) (length (snd done))
           in bnd (create env ''employee.bulk.import.log''
                     [(''name'', FStr (''Import '' @ py_str (py env) (CDateTime (fst (now env)) (snd (now env))))),
                      (''imported_count'', FInt (int (length (fst done)))),
                      (''failed_count'', FInt (int (length (snd done)))),
                      (''output_file'', opt_str (fst out)),
                      (''output_filename'', opt_str (snd out)),
                      (''error_file'', opt_str (fst err)),
                      (''error_filename'', opt_str (snd err)),
                      (''summary'', FStr summary)]) (\<lambda>log.
                write_done log out err summary))))))"

text \<open>
  A call of an action is a request, which Odoo runs in a transaction: what the action wrote
  is committed when it returns and rolled back when it raises.
\<close>

definition request :: "'a op \<Rightarrow> 'a op" where
  "request action s =
     (case action s of (Inl e, s') \<Rightarrow> (Inl e, rollback s s') | (Inr x, s') \<Rightarrow> (Inr x, s'))"

section \<open>An example directory\<close>

text \<open>
  An environment in which every \<open>create\<close> and every \<open>write\<close> succeeds, the directory of a
  company \<open>Acme\<close>, and a sheet with the sixteen required columns.
\<close>

definition example_env :: env where
  "example_env =
     \<lparr>py = example_runtime,
      ilike = (\<lambda>pattern text. lower pattern = lower text),
      search_order = (\<lambda>model t. t),
      defaults = (\<lambda>model v. []),
      create_outcome = (\<lambda>model v db. Done),
      write_outcome = (\<lambda>model i v db. Done),
      ref = (\<lambda>xml_id. if xml_id = ''base.group_user'' then Some 1 else None),
      uid = 2,
      today = \<lparr>year = 2024, month = 1, day = 31\<rparr>,
      now = (\<lparr>year = 2024, month = 1, day = 31\<rparr>,
             \<lparr>hour = 9, minute = 30, second = 0, microsecond = 0\<rparr>),
      employee_type_selection = Inr [(''employee'', ''Employee''), (''freelance'', ''Freelancer'')],
      password_of = (\<lambda>n. ''secret'' @ str_nat n),
      hash_of = (\<lambda>p. ''hash of '' @ p),
      output_excel = (\<lambda>results. ''output.xlsx''),
      error_excel = (\<lambda>failed_rows. ''errors.xlsx''),
      to_int = (\<lambda>s. Inl ValueError)\<rparr>"

definition example_headers :: "cell list" where
  "example_headers =
     [CStr ''Business Unit'', CStr ''Employee Name'', CStr ''Employee ID'', CStr ''Device ID'',
      CStr ''Work Email'', CStr ''Joining Date'', CStr ''Permanent Address'',
      CStr ''Present Address'', CStr ''Date of Birth'', CStr ''Gender'', CStr ''Religion'',
      CStr ''NID No'', CStr ''Place of Birth'', CStr ''Nationality (Country)'',
      CStr ''Employee Type'', CStr ''Employment Type'']"

definition example_row :: "string \<Rightarrow> string \<Rightarrow> string \<Rightarrow> string \<Rightarrow> cell list" where
  "example_row emp_name emp_id_no device_id email =
     [CStr ''Acme'', CStr emp_name, CStr emp_id_no, CStr device_id, CStr email,
      CStr ''2024-01-31'', CStr ''Dhaka'', CStr ''Dhaka'', CStr ''01/02/1990'', CStr ''Female'',
      CStr ''Islam'', CStr ''1990123456'', CStr ''Dhaka'', CStr ''Bangladesh'', CStr ''Employee'',
      CStr ''Permanent'']"

definition example_wizard :: "cell list list \<Rightarrow> wizard" where
  "example_wizard rows =
     \<lparr>file_bin = Some (Workbook (example_headers # rows)),
      create_missing_departments = False,
      create_missing_jobs = False,
      stop_on_error = False,
      line_ids = [],
      state = ''draft'',
      import_log_id = None,
      output_file = None,
      output_filename = None,
      error_file = None,
      error_filename = None,
      import_summary = None\<rparr>"

definition example_store :: "cell list list \<Rightarrow> store" where
  "example_store rows =
     \<lparr>tables = [(''res.company'', [(1, [(''name'', FStr ''Acme''), (''partner_id'', FId 1)])])],
      self = example_wizard rows,
      next_id = 10,
      draws = 0\<rparr>"

section \<open>Properties of the value helpers\<close>

subsection \<open>\<open>str.strip()\<close> and \<open>strptime\<close>\<close>

text \<open>
  The no-break space and the next-line character are stripped like the ASCII whitespace, and
  \<open>strptime\<close> raises nothing but \<open>ValueError\<close>.
\<close>

lemma strip_no_break_space: "strip (CHR 0xA0 # ''2024-01-31'' @ [CHR 0x85, CHR 0x20]) = ''2024-01-31''"
  by (simp add: strip_def is_space_def)

lemma strptime_only_ValueError: "strptime s fmt = Inl e \<Longrightarrow> e = ValueError"
  by (auto simp: strptime_def split: list.splits if_splits prod.splits)

lemma try_formats_Cons:
  "try_formats s (fmt # fmts) =
     (case strptime s fmt of Inr d \<Rightarrow> Inr (Some d) | Inl e \<Rightarrow> try_formats s fmts)"
proof (cases "strptime s fmt")
  case (Inl e)
  then have "e = ValueError" by (rule strptime_only_ValueError)
  with Inl show ?thesis by simp
next
  case (Inr d)
  then show ?thesis by simp
qed

lemma try_formats_returns: "\<exists>r. try_formats s fmts = Inr r"
proof (induction fmts)
  case Nil
  show ?case by simp
next
  case (Cons fmt fmts)
  show ?case
  proof (cases "strptime s fmt")
    case (Inl e)
    then have "e = ValueError" by (rule strptime_only_ValueError)
    with Inl Cons show ?thesis by simp
  next
    case (Inr d)
    then show ?thesis by simp
  qed
qed

lemma try_formats_all_fail:
  "\<forall>fmt \<in> set fmts. strptime s fmt = Inl ValueError \<Longrightarrow> try_formats s fmts = Inr None"
  by (induction fmts) auto

text \<open>
  Claim C5, as the code has it: \<open>_parse_date\<close> never raises, whatever the cell holds and
  whatever \<open>from_excel\<close> does. It returns \<open>None\<close> for \<open>None\<close> and for the empty text, and it
  returns the same \<open>None\<close> for a text that none of the four formats reads: the result does
  not tell an absent date from an unparseable one.
\<close>

theorem parse_date_total_None_twice:
  "(\<exists>r. parse_date rt raw = Inr r)
   \<and> parse_date rt CNone = Inr None
   \<and> parse_date rt (CStr '''') = Inr None
   \<and> ((\<forall>fmt \<in> set date_formats. strptime (strip s) fmt = Inl ValueError)
        \<longrightarrow> parse_date rt (CStr s) = Inr None)"
proof -
  have total: "\<exists>r. parse_date rt raw = Inr r"
  proof (cases raw)
    case (CStr x)
    then show ?thesis using try_formats_returns [of "strip x" date_formats] by auto
  next
    case (CInt i)
    then show ?thesis
      using try_formats_returns [of "strip (py_str rt (CInt i))" date_formats]
      by (auto split: sum.splits)
  next
    case (CFloat x)
    then show ?thesis
      using try_formats_returns [of "strip (py_str rt (CFloat x))" date_formats]
      by (auto split: sum.splits)
  next
    case (CBool b)
    then show ?thesis
      using try_formats_returns [of "strip (py_str rt (CBool b))" date_formats]
      by (auto split: sum.splits)
  qed simp_all
  have unparseable: "(\<forall>fmt \<in> set date_formats. strptime (strip s) fmt = Inl ValueError)
        \<longrightarrow> parse_date rt (CStr s) = Inr None"
    using try_formats_all_fail [of date_formats "strip s"] by simp
  from total unparseable show ?thesis by simp
qed

theorem parse_date_total_None_twice_witness:
  "(\<exists>r. parse_date example_runtime (CStr ''31 Jan 2024'') = Inr r)
   \<and> parse_date example_runtime CNone = Inr None
   \<and> parse_date example_runtime (CStr '''') = Inr None
   \<and> parse_date example_runtime (CStr ''31 Jan 2024'') = Inr None"
proof -
  have fails: "\<forall>fmt \<in> set date_formats. strptime (strip ''31 Jan 2024'') fmt = Inl ValueError"
    by code_simp
  show ?thesis
    using parse_date_total_None_twice [of example_runtime "CStr ''31 Jan 2024''" "''31 Jan 2024''"]
      fails
    by simp
qed

text \<open>
  The claim as the specification words it fails: the result for an absent date and the
  result for the unparseable text \<open>2024-31-01\<close> are one and the same value.
\<close>

theorem parse_date_absent_is_unparseable:
  "parse_date example_runtime CNone = parse_date example_runtime (CStr ''2024-31-01'')"
  by code_simp

subsection \<open>Row numbers\<close>










lemma parse_date_no_break_space:
  "parse_date rt (CStr (CHR 0xA0 # ''2024-01-31'')) = Inr (Some \<lparr>year = 2024, month = 1, day = 31\<rparr>)"
  by code_simp

text \<open>
  Claim C7: for a text cell, \<open>_parse_date\<close> tries \<open>%Y-%m-%d\<close>, \<open>%d/%m/%Y\<close>, \<open>%d-%m-%Y\<close> and
  \<open>%m/%d/%Y\<close>, in that order, on the stripped text, and the first format that reads it
  gives the result; when none does the result is \<open>None\<close>. The texts \<open>2024-01-31\<close>,
  \<open>31/01/2024\<close>, \<open>31-01-2024\<close> and \<open>01/31/2024\<close> all give 31 January 2024, the text
  \<open>2024-31-01\<close> gives \<open>None\<close>, and \<open>01/02/2024\<close>, which the second and the fourth format both
  read, is taken as day/month by the second.
\<close>

theorem parse_date_four_formats_in_order:
  "parse_date rt (CStr s) =
     (if s = '''' then Inr None
      else case strptime (strip s) fmt_Ymd of Inr d \<Rightarrow> Inr (Some d) | Inl e1 \<Rightarrow>
           (case strptime (strip s) fmt_dmY_slash of Inr d \<Rightarrow> Inr (Some d) | Inl e2 \<Rightarrow>
           (case strptime (strip s) fmt_dmY_dash of Inr d \<Rightarrow> Inr (Some d) | Inl e3 \<Rightarrow>
           (case strptime (strip s) fmt_mdY_slash of Inr d \<Rightarrow> Inr (Some d) | Inl e4 \<Rightarrow>
            Inr None))))
   \<and> fmt_Ymd = [DY, Lit (CHR ''-''), Dm, Lit (CHR ''-''), Dd]
   \<and> fmt_dmY_slash = [Dd, Lit (CHR ''/''), Dm, Lit (CHR ''/''), DY]
   \<and> fmt_dmY_dash = [Dd, Lit (CHR ''-''), Dm, Lit (CHR ''-''), DY]
   \<and> fmt_mdY_slash = [Dm, Lit (CHR ''/''), Dd, Lit (CHR ''/''), DY]
   \<and> parse_date rt (CStr ''2024-01-31'') = Inr (Some \<lparr>year = 2024, month = 1, day = 31\<rparr>)
   \<and> parse_date rt (CStr ''31/01/2024'') = Inr (Some \<lparr>year = 2024, month = 1, day = 31\<rparr>)
   \<and> parse_date rt (CStr ''31-01-2024'') = Inr (Some \<lparr>year = 2024, month = 1, day = 31\<rparr>)
   \<and> parse_date rt (CStr ''01/31/2024'') = Inr (Some \<lparr>year = 2024, month = 1, day = 31\<rparr>)
   \<and> parse_date rt (CStr ''2024-31-01'') = Inr None
   \<and> parse_date rt (CStr ''01/02/2024'') = Inr (Some \<lparr>year = 2024, month = 2, day = 1\<rparr>)"
proof -
  have order: "parse_date rt (CStr s) =
     (if s = '''' then Inr None
      else case strptime (strip s) fmt_Ymd of Inr d \<Rightarrow> Inr (Some d) | Inl e1 \<Rightarrow>
           (case strptime (strip s) fmt_dmY_slash of Inr d \<Rightarrow> Inr (Some d) | Inl e2 \<Rightarrow>
           (case strptime (strip s) fmt_dmY_dash of Inr d \<Rightarrow> Inr (Some d) | Inl e3 \<Rightarrow>
           (case strptime (strip s) fmt_mdY_slash of Inr d \<Rightarrow> Inr (Some d) | Inl e4 \<Rightarrow>
            Inr None))))"
    by (simp add: date_formats_def try_formats_Cons del: try_formats.simps(2) split: sum.splits)
  have f1: "fmt_Ymd = [DY, Lit (CHR ''-''), Dm, Lit (CHR ''-''), Dd]"
    by (simp add: fmt_Ymd_def)
  have f2: "fmt_dmY_slash = [Dd, Lit (CHR ''/''), Dm, Lit (CHR ''/''), DY]"
    by (simp add: fmt_dmY_slash_def)
  have f3: "fmt_dmY_dash = [Dd, Lit (CHR ''-''), Dm, Lit (CHR ''-''), DY]"
    by (simp add: fmt_dmY_dash_def)
  have f4: "fmt_mdY_slash = [Dm, Lit (CHR ''/''), Dd, Lit (CHR ''/''), DY]"
    by (simp add: fmt_mdY_slash_def)
  have e1: "parse_date rt (CStr ''2024-01-31'') = Inr (Some \<lparr>year = 2024, month = 1, day = 31\<rparr>)"
    by code_simp
  have e2: "parse_date rt (CStr ''31/01/2024'') = Inr (Some \<lparr>year = 2024, month = 1, day = 31\<rparr>)"
    by code_simp
  have e3: "parse_date rt (CStr ''31-01-2024'') = Inr (Some \<lparr>year = 2024, month = 1, day = 31\<rparr>)"
    by code_simp
  have e4: "parse_date rt (CStr ''01/31/2024'') = Inr (Some \<lparr>year = 2024, month = 1, day = 31\<rparr>)"
    by code_simp
  have e5: "parse_date rt (CStr ''2024-31-01'') = Inr None"
    by code_simp
  have e6: "parse_date rt (CStr ''01/02/2024'') = Inr (Some \<lparr>year = 2024, month = 2, day = 1\<rparr>)"
    by code_simp
  from order f1 f2 f3 f4 e1 e2 e3 e4 e5 e6 show ?thesis
    by (intro conjI)
qed

subsection \<open>Decimal text of an integer\<close>

lemma digit_char_not_space: "d < 10 \<Longrightarrow> \<not> is_space (digit_char d)"
proof -
  assume "d < 10"
  then have "d \<in> {0,1,2,3,4,5,6,7,8,9}" by auto
  then show ?thesis by (auto simp: digit_char_def is_space_def)
qed

lemma str_nat_not_space: "c \<in> set (str_nat n) \<Longrightarrow> \<not> is_space c"
proof (induction n rule: str_nat.induct)
  case (1 n)
  show ?case
  proof (cases "n < 10")
    case True
    with "1.prems" show ?thesis by (simp add: str_nat.simps [of n] digit_char_not_space)
  next
    case False
    with "1.prems" have "c \<in> set (str_nat (n div 10)) \<or> c = digit_char (n mod 10)"
      by (auto simp: str_nat.simps [of n])
    with False "1.IH" show ?thesis by (auto simp: digit_char_not_space)
  qed
qed

lemma strip_no_space: "(\<And>c. c \<in> set s \<Longrightarrow> \<not> is_space c) \<Longrightarrow> strip s = s"
proof -
  assume a: "\<And>c. c \<in> set s \<Longrightarrow> \<not> is_space c"
  have keep: "dropWhile is_space xs = xs" if "set xs \<subseteq> set s" for xs
    using that a by (cases xs) auto
  have "dropWhile is_space s = s" by (rule keep) simp
  moreover have "dropWhile is_space (rev s) = rev s" by (rule keep) simp
  ultimately show ?thesis by (simp add: strip_def)
qed

lemma str_nat_nonempty: "str_nat n \<noteq> []"
  by (simp add: str_nat.simps [of n])

lemma str_nat_length: "length (str_nat n) \<le> Suc k \<longleftrightarrow> n < 10 ^ Suc k"
proof (induction n arbitrary: k rule: str_nat.induct)
  case (1 n)
  show ?case
  proof (cases "n < 10")
    case True
    have "(10::nat) * 1 \<le> 10 * 10 ^ k" by (intro mult_le_mono) simp_all
    then have "(10::nat) \<le> 10 ^ Suc k" by simp
    with True have "n < 10 ^ Suc k" by (rule order.strict_trans2)
    then show ?thesis using True by (simp add: str_nat.simps [of n])
  next
    case False
    show ?thesis
    proof (cases k)
      case 0
      with False show ?thesis using str_nat_nonempty [of "n div 10"]
        by (simp add: str_nat.simps [of n] Suc_le_eq)
    next
      case (Suc j)
      have "length (str_nat (n div 10)) \<le> Suc j \<longleftrightarrow> n div 10 < 10 ^ Suc j"
        using "1.IH" [OF False] .
      moreover have "n div 10 < 10 ^ Suc j \<longleftrightarrow> n < 10 ^ Suc (Suc j)"
        by (simp add: div_less_iff_less_mult mult.commute)
      ultimately show ?thesis using False Suc by (simp add: str_nat.simps [of n])
    qed
  qed
qed

lemma str_nat_hd: "hd (str_nat n) = digit_char (n div 10 ^ (length (str_nat n) - 1))"
proof (induction n rule: str_nat.induct)
  case (1 n)
  show ?case
  proof (cases "n < 10")
    case True
    then show ?thesis by (simp add: str_nat.simps [of n])
  next
    case False
    have len: "length (str_nat n) = Suc (length (str_nat (n div 10)))"
      using False by (simp add: str_nat.simps [of n])
    have pos: "0 < length (str_nat (n div 10))" using str_nat_nonempty by simp
    have "hd (str_nat n) = hd (str_nat (n div 10))"
      using False str_nat_nonempty [of "n div 10"] by (simp add: str_nat.simps [of n])
    also have "\<dots> = digit_char (n div 10 div 10 ^ (length (str_nat (n div 10)) - 1))"
      using "1.IH" [OF False] .
    also have "n div 10 div 10 ^ (length (str_nat (n div 10)) - 1) = n div 10 ^ (length (str_nat n) - 1)"
      using pos len by (cases "length (str_nat (n div 10))") (simp_all add: div_mult2_eq)
    finally show ?thesis .
  qed
qed

lemma digit_char_one: "d < 10 \<Longrightarrow> digit_char d = CHR ''1'' \<longleftrightarrow> d = 1"
proof -
  assume "d < 10"
  then have "d \<in> {0,1,2,3,4,5,6,7,8,9}" by auto
  then show ?thesis by (auto simp: digit_char_def)
qed

lemma str_nat_ten_one:
  "length (str_nat n) = 10 \<and> startswith (str_nat n) ''1'' \<longleftrightarrow> 1000000000 \<le> n \<and> n < 2000000000"
proof -
  have l10: "length (str_nat n) \<le> 10 \<longleftrightarrow> n < 10000000000"
    using str_nat_length [of n 9] by simp
  have l9: "length (str_nat n) \<le> 9 \<longleftrightarrow> n < 1000000000"
    using str_nat_length [of n 8] by simp
  have sw: "startswith (str_nat n) ''1'' \<longleftrightarrow> hd (str_nat n) = CHR ''1''"
    using str_nat_nonempty [of n] by (cases "str_nat n") (simp_all add: startswith_def)
  show ?thesis
  proof (cases "length (str_nat n) = 10")
    case True
    then have range: "1000000000 \<le> n" "n < 10000000000" using l10 l9 by auto
    have "hd (str_nat n) = digit_char (n div 1000000000)"
      using str_nat_hd [of n] True by simp
    moreover have "n div 1000000000 < 10" using range by simp
    ultimately have "hd (str_nat n) = CHR ''1'' \<longleftrightarrow> n div 1000000000 = 1"
      by (simp add: digit_char_one)
    moreover have "n div 1000000000 = 1 \<longleftrightarrow> 1000000000 \<le> n \<and> n < 2000000000"
      by auto
    ultimately show ?thesis using True sw by simp
  next
    case False
    then have "n < 1000000000 \<or> 10000000000 \<le> n" using l10 l9 by auto
    with False show ?thesis by auto
  qed
qed

lemma parse_str_int:
  "parse_str rt (CInt i) =
     (if 1000000000 \<le> i \<and> i < 2000000000 then ''0'' @ str_int i else str_int i)"
proof (cases "i < 0")
  case True
  have "strip (str_int i) = str_int i"
    using True by (intro strip_no_space) (auto simp: str_int_def is_space_def dest: str_nat_not_space)
  moreover have "\<not> startswith (str_int i) ''1''" using True by (simp add: str_int_def startswith_def)
  ultimately show ?thesis using True by (simp add: pad_bd_def)
next
  case False
  then have s: "str_int i = str_nat (nat i)" by (simp add: str_int_def)
  have "strip (str_int i) = str_int i"
    unfolding s by (intro strip_no_space) (auto dest: str_nat_not_space)
  moreover have "1000000000 \<le> nat i \<and> nat i < 2000000000 \<longleftrightarrow> 1000000000 \<le> i \<and> i < 2000000000"
    using False by auto
  ultimately show ?thesis using str_nat_ten_one [of "nat i"] s by (simp add: pad_bd_def)
qed

lemma str_nat_numeral:
  "str_nat (numeral k) =
     (if (numeral k :: nat) < 10 then [digit_char (numeral k)]
      else str_nat (numeral k div 10) @ [digit_char (numeral k mod 10)])"
  by (rule str_nat.simps)

lemma str_nat_0: "str_nat 0 = ''0''"
  by (simp add: str_nat.simps [of 0] digit_char_def)

lemma str_nat_1: "str_nat (Suc 0) = ''1''"
  by (simp add: str_nat.simps [of "Suc 0"] digit_char_def)

lemma digit_char_numeral:
  "digit_char 0 = CHR ''0''" "digit_char (Suc 0) = CHR ''1''" "digit_char 2 = CHR ''2''"
  "digit_char 3 = CHR ''3''" "digit_char 4 = CHR ''4''" "digit_char 5 = CHR ''5''"
  "digit_char 6 = CHR ''6''" "digit_char 7 = CHR ''7''" "digit_char 8 = CHR ''8''"
  "digit_char 9 = CHR ''9''"
  by (simp_all add: digit_char_def eval_nat_numeral)

lemmas str_nat_eval = str_nat_numeral str_nat_0 str_nat_1 digit_char_numeral

text \<open>
  Claim C8: a numeric cell is rendered as the decimal text of its integer value, an
  integral float like the \<open>int\<close> of the same value (so without a fractional part), and the
  text gets a \<open>0\<close> in front exactly when it has 10 characters and starts with \<open>1\<close>, that
  is for the values from 1000000000 to 1999999999. The value 1712345678 gives
  \<open>01712345678\<close>, as an \<open>int\<close> and as a float, and the 9-digit value 171234567 gives
  \<open>171234567\<close>.
\<close>

theorem parse_str_numeric_cell:
  "parse_str rt (CInt i) =
     (if 1000000000 \<le> i \<and> i < 2000000000 then ''0'' @ str_int i else str_int i)
   \<and> (is_integer x \<longrightarrow> parse_str rt (CFloat x) = parse_str rt (CInt (int_of_float x)))
   \<and> parse_str rt (CInt 1712345678) = ''01712345678''
   \<and> parse_str rt (CFloat (PyFloat 1712345678 0)) = ''01712345678''
   \<and> parse_str rt (CInt 171234567) = ''171234567''
   \<and> parse_str rt (CFloat (PyFloat 171234567 0)) = ''171234567''"
proof -
  have float: "is_integer x \<longrightarrow> parse_str rt (CFloat x) = parse_str rt (CInt (int_of_float x))"
    by simp
  have e1: "parse_str rt (CInt 1712345678) = ''01712345678''"
    by (simp add: str_int_def str_nat_eval pad_bd_def strip_def startswith_def is_space_def)
  have e2: "parse_str rt (CFloat (PyFloat 1712345678 0)) = ''01712345678''"
    by (simp add: str_int_def str_nat_eval pad_bd_def strip_def startswith_def is_space_def)
  have e3: "parse_str rt (CInt 171234567) = ''171234567''"
    by (simp add: str_int_def str_nat_eval pad_bd_def strip_def startswith_def is_space_def)
  have e4: "parse_str rt (CFloat (PyFloat 171234567 0)) = ''171234567''"
    by (simp add: str_int_def str_nat_eval pad_bd_def strip_def startswith_def is_space_def)
  from parse_str_int [of rt i] float e1 e2 e3 e4 show ?thesis
    by (intro conjI)
qed

theorem parse_str_numeric_cell_witness:
  "is_integer (PyFloat 3424691356 (- 1))
   \<and> parse_str example_runtime (CFloat (PyFloat 3424691356 (- 1))) = ''01712345678''
   \<and> parse_str example_runtime (CInt 1999999999) = ''01999999999''
   \<and> parse_str example_runtime (CInt 2000000000) = ''2000000000''"
proof -
  have h: "is_integer (PyFloat 3424691356 (- 1))"
    by simp
  have v: "int_of_float (PyFloat 3424691356 (- 1)) = 1712345678"
    by simp
  note t = parse_str_numeric_cell [of example_runtime 1712345678 "PyFloat 3424691356 (- 1)"]
  from t have "is_integer (PyFloat 3424691356 (- 1)) \<longrightarrow>
      parse_str example_runtime (CFloat (PyFloat 3424691356 (- 1)))
        = parse_str example_runtime (CInt (int_of_float (PyFloat 3424691356 (- 1))))"
    by (rule conjunct1 [OF conjunct2])
  with h have "parse_str example_runtime (CFloat (PyFloat 3424691356 (- 1)))
        = parse_str example_runtime (CInt (int_of_float (PyFloat 3424691356 (- 1))))"
    by (rule rev_mp)
  also have "\<dots> = parse_str example_runtime (CInt 1712345678)"
    unfolding v by (rule refl)
  also from t have "\<dots> = ''01712345678''"
    by (rule conjunct1 [OF conjunct2 [OF conjunct2]])
  finally have f: "parse_str example_runtime (CFloat (PyFloat 3424691356 (- 1))) = ''01712345678''" .
  have a: "parse_str example_runtime (CInt 1999999999) = ''01999999999''"
    by (simp add: str_int_def str_nat_eval pad_bd_def strip_def startswith_def is_space_def)
  have b: "parse_str example_runtime (CInt 2000000000) = ''2000000000''"
    by (simp add: str_int_def str_nat_eval pad_bd_def strip_def startswith_def is_space_def)
  from h f a b show ?thesis
    by (intro conjI)
qed

section \<open>Properties of the validation\<close>

subsection \<open>Operations that leave the state as it is\<close>

lemma snd_ret: "snd (ret x s) = s"
  by (simp add: ret_def)

lemma snd_bnd:
  assumes "\<And>s. snd (m s) = s" and "\<And>x s. snd (f x s) = s"
  shows "snd (bnd m f s) = s"
proof (cases "m s")
  case (Pair r s')
  with assms(1) [of s] have "s' = s" by simp
  with Pair assms(2) show ?thesis by (cases r) (simp_all add: bnd_def)
qed

lemma snd_search: "snd (search env model domain s) = s"
  by (simp add: search_def)

lemma snd_get_self: "snd (get_self s) = s"
  by (simp add: get_self_def)

lemma snd_lift: "snd (lift r s) = s"
  by (simp add: lift_def)

lemmas reads = snd_ret snd_bnd snd_search snd_get_self snd_lift

lemma snd_resolve_employee_ref: "snd (resolve_employee_ref env reference s) = s"
  unfolding resolve_employee_ref_def
  by (auto intro!: reads split: option.splits)

lemma snd_company_resolution: "snd (company_resolution env company_name s) = s"
  unfolding company_resolution_def
  by (auto intro!: reads split: option.splits)

lemma snd_existing_employee_errors: "snd (existing_employee_errors env fname label v s) = s"
  unfolding existing_employee_errors_def
  by (auto intro!: reads split: option.splits)

lemma snd_existing_user_errors: "snd (existing_user_errors env email s) = s"
  unfolding existing_user_errors_def
  by (auto intro!: reads split: option.splits)

lemma snd_batch_errors: "snd (batch_errors emp_id_no device_id email s) = s"
  unfolding batch_errors_def
  by (auto intro!: reads)

lemma snd_department_errors: "snd (department_errors env dept_name company_name company_id s) = s"
  unfolding department_errors_def
  by (auto intro!: reads split: option.splits)

lemma snd_job_errors: "snd (job_errors env job_name s) = s"
  unfolding job_errors_def
  by (auto intro!: reads)

lemma snd_reference_errors: "snd (reference_errors env row_data label s) = s"
  unfolding reference_errors_def Let_def
  by (auto intro!: reads snd_resolve_employee_ref)

lemma snd_joining_date_errors: "snd (joining_date_errors rt row_data s) = s"
  unfolding joining_date_errors_def Let_def
  by (auto intro!: reads)

lemma snd_birthday_errors: "snd (birthday_errors rt row_data s) = s"
  unfolding birthday_errors_def Let_def
  by (auto intro!: reads)

lemmas reads_sections = snd_company_resolution snd_existing_employee_errors
  snd_existing_user_errors snd_batch_errors snd_department_errors snd_job_errors
  snd_reference_errors snd_joining_date_errors snd_birthday_errors

lemma snd_validate_row: "snd (validate_row env row_data s) = s"
  unfolding validate_row_def Let_def
  by (intro reads reads_sections) (auto intro!: reads reads_sections)

lemma snd_validate_rows: "snd (validate_rows env rows s) = s"
proof (induction rows arbitrary: s)
  case Nil
  show ?case by (simp add: snd_ret)
next
  case (Cons row_data rows)
  show ?case
    by (simp only: validate_rows.simps) (intro snd_bnd snd_validate_row Cons.IH snd_ret)
qed

lemma keeps_bnd:
  assumes "\<And>s. g (snd (m s)) = g s" and "\<And>x s. g (snd (f x s)) = g s"
  shows "g (snd (bnd m f s)) = g s"
proof (cases "m s")
  case (Pair r s')
  with assms(1) [of s] have "g s' = g s" by simp
  with Pair assms(2) [of _ s'] show ?thesis by (cases r) (simp_all add: bnd_def)
qed

lemma action_validate_keeps:
  assumes "\<And>s w. g (s\<lparr>self := w\<rparr>) = g s"
  shows "g (snd (action_validate env s)) = g s"
  unfolding action_validate_def
proof (intro keeps_bnd [where g = g])
  fix s show "g (snd (get_self s)) = g s" by (simp add: get_self_def)
next
  fix w s
  show "g (snd ((case file_bin w of
           None \<Rightarrow> raise (UserError ''Please upload an Excel file first.'')
         | Some f \<Rightarrow>
             bnd (lift (parse_excel (py env) f)) (\<lambda>rows.
             bnd unlink_lines (\<lambda>u.
             bnd (validate_rows env rows) (\<lambda>validated_lines.
             bnd (lift (new_lines env validated_lines)) (\<lambda>lines.
               write_preview lines))))) s)) = g s"
  proof (cases "file_bin w")
    case None
    then show ?thesis by (simp add: raise_def)
  next
    case (Some f)
    show ?thesis
      unfolding Some option.case
      by (intro keeps_bnd [where g = g])
         (simp_all add: lift_def unlink_lines_def write_preview_def snd_validate_rows assms)
  qed
qed

text \<open>
  Claim C3: \<open>action_validate\<close> leaves the directory as it found it, whatever the file, the
  directory and the wizard are, and whether it returns or raises: no record of any model is
  created or changed, and no id is drawn from the sequences. What it writes is the wizard
  and its preview lines.
\<close>

theorem action_validate_reads_only:
  "tables (snd (action_validate env s)) = tables s
   \<and> next_id (snd (action_validate env s)) = next_id s"
  using action_validate_keeps [of tables env s] action_validate_keeps [of next_id env s]
  by simp


end
